theory Spec2Isabelle
  imports Main
begin

section \<open>Shared JavaScript values\<close>

text \<open>
  A JavaScript \<^verbatim>\<open>Date\<close> holds a time value in milliseconds since the epoch, or NaN
  (an invalid date). \<^verbatim>\<open>getTime()\<close> of an invalid date is NaN, and every comparison
  with NaN is false; \<open>getTime\<close> returns \<open>None\<close> for it.
\<close>

datatype Date = Date int | Invalid_Date

fun getTime :: "Date \<Rightarrow> int option" where
  "getTime (Date t) = Some t"
| "getTime Invalid_Date = None"

text \<open>
  The text of a timestamp as it is held in a stored log entry. \<open>ISOString t\<close> stands
  for the text \<^verbatim>\<open>new Date(t).toISOString()\<close>, which \<^verbatim>\<open>new Date(text)\<close> reads back
  as the time value \<open>t\<close>; \<open>Unparseable s\<close> stands for a text \<open>s\<close> that
  \<^verbatim>\<open>new Date(s)\<close> cannot read (the result is an invalid date).
\<close>

datatype dateString = ISOString int | Unparseable string

fun new_Date :: "dateString \<Rightarrow> Date" where
  "new_Date (ISOString t) = Date t"
| "new_Date (Unparseable s) = Invalid_Date"

text \<open>\<^verbatim>\<open>new Date().toISOString()\<close> when the clock reads \<open>t\<close>.\<close>

definition now_toISOString :: "int \<Rightarrow> dateString" where
  "now_toISOString t = ISOString t"

text \<open>
  \<^verbatim>\<open>x || d\<close> on an optional number: \<^verbatim>\<open>undefined\<close>, \<^verbatim>\<open>null\<close> and \<open>0\<close> are falsy.
\<close>

fun or_number :: "int option \<Rightarrow> int \<Rightarrow> int" where
  "or_number None d = d"
| "or_number (Some n) d = (if n = 0 then d else n)"

text \<open>\<^verbatim>\<open>x || d\<close> on an optional string: \<^verbatim>\<open>undefined\<close> and the empty string are falsy.\<close>

fun or_string :: "string option \<Rightarrow> string \<Rightarrow> string" where
  "or_string None d = d"
| "or_string (Some s) d = (if s = [] then d else s)"

section \<open>Renewal page (src/app/dashboard/renew/page.tsx)\<close>

record Account =
  acct_id :: int
  acct_email :: string

text \<open>
  \<^verbatim>\<open>interface RenewalResult\<close>. The type of the timestamp is a parameter: in component
  state it is an optional \<^verbatim>\<open>Date\<close>, in the stored log it is a text. \<open>renewed_count\<close>
  is optional because the code guards every read of it with \<^verbatim>\<open>|| 0\<close>.
\<close>

record 'ts RenewalResult =
  account_id :: int
  email :: string
  renewed_count :: "int option"
  available_count :: int
  success :: bool
  message :: string
  condition_met :: string
  timestamp :: 'ts

text \<open>\<^verbatim>\<open>{ ...log, timestamp: v }\<close>\<close>

definition with_timestamp :: "'b \<Rightarrow> 'a RenewalResult \<Rightarrow> 'b RenewalResult" where
  "with_timestamp v log =
     \<lparr>account_id = account_id log, email = email log, renewed_count = renewed_count log,
      available_count = available_count log, success = success log, message = message log,
      condition_met = condition_met log, timestamp = v\<rparr>"

text \<open>
  A string value held in \<^verbatim>\<open>localStorage\<close>. \<open>Stringified logs\<close> stands for the text
  \<^verbatim>\<open>JSON.stringify(logs)\<close> of an array of log entries, which \<^verbatim>\<open>JSON.parse\<close> reads
  back as \<open>logs\<close>. \<open>Text s\<close> is a text \<open>s\<close> that is not the JSON text of such an
  array: a job id, or a text on which the \<^verbatim>\<open>try\<close> block of the load effect throws
  (\<^verbatim>\<open>JSON.parse\<close> rejects it, or what it yields has no \<^verbatim>\<open>map\<close>). The code types the
  parsed value as an array of entries with a \<^verbatim>\<open>timestamp\<close> text, and so does the model.
\<close>

datatype jstext =
  Text string
| Stringified "dateString RenewalResult list"

fun truthy :: "jstext \<Rightarrow> bool" where
  "truthy (Text s) = (s \<noteq> [])"
| "truthy (Stringified logs) = True"

fun JSON_parse_logs :: "jstext \<Rightarrow> dateString RenewalResult list option" where
  "JSON_parse_logs (Text s) = None"
| "JSON_parse_logs (Stringified logs) = Some logs"

record renewRequest =
  account_ids :: "int list"
  renewal_count :: int

record renewResponse =
  response_results :: "Date option RenewalResult list"
  total_renewed :: "int option"

text \<open>
  What \<^verbatim>\<open>await accountsAPI.renewListings(...)\<close> does: it resolves with a response, or
  it throws; \<open>Rejected e\<close> carries \<^verbatim>\<open>error.response?.data?.error\<close> when there is one.
\<close>

datatype renewOutcome =
  Resolved renewResponse
| Rejected "string option"

text \<open>
  The component state (one field per \<^verbatim>\<open>useState\<close>), the browser's
  \<^verbatim>\<open>localStorage\<close>, and what the page has done to the outside: the \<^verbatim>\<open>alert\<close>
  dialogs shown and the renewal requests sent.
\<close>

record RenewState =
  accounts :: "Account list"
  selectedAccounts :: "int list"
  renewalCount :: int
  loading :: bool
  results :: "Date option RenewalResult list"
  totalRenewed :: int
  activeRenewalJobId :: "jstext option"
  localStorage :: "string \<rightharpoonup> jstext"
  alerts :: "string list"
  requests :: "renewRequest list"

text \<open>The first render: the initial value of every \<^verbatim>\<open>useState\<close>.\<close>

definition initialState :: "(string \<rightharpoonup> jstext) \<Rightarrow> RenewState" where
  "initialState storage =
     \<lparr>accounts = [], selectedAccounts = [], renewalCount = 20, loading = False,
      results = [], totalRenewed = 0,
      activeRenewalJobId = storage ''activeRenewalJobId'',
      localStorage = storage, alerts = [], requests = []\<rparr>"

definition twentyFourHours :: int where
  "twentyFourHours = 24 * 60 * 60 * 1000"

text \<open>
  \<^verbatim>\<open>log.timestamp && log.timestamp.getTime() > twentyFourHoursAgo.getTime()\<close>, where
  \<open>now\<close> is the time value of \<^verbatim>\<open>new Date()\<close>.
\<close>

definition isRecent :: "int \<Rightarrow> Date option RenewalResult \<Rightarrow> bool" where
  "isRecent now log =
     (case timestamp log of
        None \<Rightarrow> False
      | Some d \<Rightarrow> (case getTime d of None \<Rightarrow> False | Some t \<Rightarrow> t > now - twentyFourHours))"

definition sumRenewed :: "'a RenewalResult list \<Rightarrow> int" where
  "sumRenewed rs = foldl (\<lambda>sum result. sum + or_number (renewed_count result) 0) 0 rs"

text \<open>The effect that loads the activity log on mount; \<open>now\<close> is the clock.\<close>

definition loadActivityLogs :: "int \<Rightarrow> RenewState \<Rightarrow> RenewState" where
  "loadActivityLogs now s =
     (case localStorage s ''renewalActivityLogs'' of
        None \<Rightarrow> s
      | Some savedLogs \<Rightarrow>
          if \<not> truthy savedLogs then s
          else (case JSON_parse_logs savedLogs of
                  None \<Rightarrow> s\<lparr>localStorage := (localStorage s)(''renewalActivityLogs'' := None)\<rparr>
                | Some parsedLogs \<Rightarrow>
                    let logsWithDates =
                          map (\<lambda>log. with_timestamp (Some (new_Date (timestamp log))) log) parsedLogs;
                        recentLogs = filter (isRecent now) logsWithDates
                    in s\<lparr>results := recentLogs, totalRenewed := sumRenewed recentLogs\<rparr>))"

text \<open>
  The effect that saves the activity log whenever \<open>results\<close> changes. \<^verbatim>\<open>new Date()\<close>
  is read once per entry; \<open>clock i\<close> is what it returns for the entry at index \<open>i\<close>.
\<close>

definition saveActivityLogs :: "(nat \<Rightarrow> int) \<Rightarrow> RenewState \<Rightarrow> RenewState" where
  "saveActivityLogs clock s =
     (if length (results s) > 0
      then let logsWithTimestamp =
                 map (\<lambda>(i, log). with_timestamp (now_toISOString (clock i)) log)
                     (enumerate 0 (results s))
           in s\<lparr>localStorage :=
                  (localStorage s)(''renewalActivityLogs'' \<mapsto> Stringified logsWithTimestamp)\<rparr>
      else s)"

text \<open>
  The effect that checks for an active renewal job. Both branches of
  \<^verbatim>\<open>checkRenewalStatus\<close> are written out as the source has them.
\<close>

definition checkRenewalStatus :: "RenewState \<Rightarrow> RenewState" where
  "checkRenewalStatus s =
     (case activeRenewalJobId s of
        None \<Rightarrow> s
      | Some jobId \<Rightarrow>
          if \<not> truthy jobId then s
          else if length (results s) > 0
          then s\<lparr>localStorage := (localStorage s)(''activeRenewalJobId'' := None),
                 activeRenewalJobId := None, loading := False\<rparr>
          else s\<lparr>localStorage := (localStorage s)(''activeRenewalJobId'' := None),
                 activeRenewalJobId := None, loading := False\<rparr>)"

definition toggleAccount :: "int \<Rightarrow> RenewState \<Rightarrow> RenewState" where
  "toggleAccount accountId s =
     s\<lparr>selectedAccounts :=
         (if accountId \<in> set (selectedAccounts s)
          then filter (\<lambda>i. i \<noteq> accountId) (selectedAccounts s)
          else selectedAccounts s @ [accountId])\<rparr>"

definition selectAll :: "RenewState \<Rightarrow> RenewState" where
  "selectAll s =
     (if length (selectedAccounts s) = length (accounts s)
      then s\<lparr>selectedAccounts := []\<rparr>
      else s\<lparr>selectedAccounts := map acct_id (accounts s)\<rparr>)"

definition resetRenewalState :: "RenewState \<Rightarrow> RenewState" where
  "resetRenewalState s =
     s\<lparr>loading := False, activeRenewalJobId := None,
       localStorage := (localStorage s)(''activeRenewalJobId'' := None)\<rparr>"

text \<open>
  \<^verbatim>\<open>response.data.total_renewed || response.data.results.reduce(...)\<close>
\<close>

definition calculatedTotal :: "renewResponse \<Rightarrow> int" where
  "calculatedTotal response =
     or_number (total_renewed response) (sumRenewed (response_results response))"

text \<open>
  \<^verbatim>\<open>handleRenewal\<close>. \<open>stamp\<close> and \<open>rnd\<close> are the texts of \<^verbatim>\<open>Date.now()\<close> and of
  the random suffix in the job id; \<open>clock i\<close> is the time value of the \<^verbatim>\<open>new Date()\<close>
  read for the result at index \<open>i\<close>; \<open>renewListings\<close> is the backend call.
\<close>

definition handleRenewal ::
  "string \<Rightarrow> string \<Rightarrow> (nat \<Rightarrow> int) \<Rightarrow> (renewRequest \<Rightarrow> renewOutcome) \<Rightarrow> RenewState \<Rightarrow> RenewState"
where
  "handleRenewal stamp rnd clock renewListings s =
     (if length (selectedAccounts s) = 0
      then s\<lparr>alerts := alerts s @ [''Please select at least one account'']\<rparr>
      else if renewalCount s < 1 \<or> renewalCount s > 20
      then s\<lparr>alerts := alerts s @ [''Renewal count must be between 1 and 20 (Facebook limit)'']\<rparr>
      else
        let jobId = Text (''renewal_'' @ stamp @ ''_'' @ rnd);
            s1 = s\<lparr>loading := True, results := [], totalRenewed := 0,
                   activeRenewalJobId := Some jobId,
                   localStorage := (localStorage s)(''activeRenewalJobId'' \<mapsto> jobId)\<rparr>;
            request = \<lparr>account_ids = selectedAccounts s, renewal_count = renewalCount s\<rparr>;
            s2 = s1\<lparr>requests := requests s1 @ [request]\<rparr>;
            s3 = (case renewListings request of
                    Resolved response \<Rightarrow>
                      let resultsWithTimestamp =
                            map (\<lambda>(i, result). with_timestamp (Some (Date (clock i))) result)
                                (enumerate 0 (response_results response))
                      in resetRenewalState
                           (s2\<lparr>results := resultsWithTimestamp,
                               totalRenewed := calculatedTotal response\<rparr>)
                  | Rejected err \<Rightarrow>
                      let errorMessage =
                            or_string err ''Failed to renew listings. Please try again.''
                      in resetRenewalState (s2\<lparr>alerts := alerts s2 @ [errorMessage]\<rparr>))
        in s3\<lparr>loading := False\<rparr>)"

definition clearActivityLogs :: "RenewState \<Rightarrow> RenewState" where
  "clearActivityLogs s =
     resetRenewalState
       (s\<lparr>results := [], selectedAccounts := [], totalRenewed := 0,
          localStorage := (localStorage s)(''renewalActivityLogs'' := None)\<rparr>)"

text \<open>
  \<^verbatim>\<open>setRenewalCount(parseInt(e.target.value) || 0)\<close>; \<open>None\<close> is the NaN that
  \<^verbatim>\<open>parseInt\<close> returns for text that does not start with a number.
\<close>

definition setRenewalCount :: "int option \<Rightarrow> RenewState \<Rightarrow> RenewState" where
  "setRenewalCount parsed s = s\<lparr>renewalCount := or_number parsed 0\<rparr>"

text \<open>\<^verbatim>\<open>loadAccounts\<close>, when \<^verbatim>\<open>accountsAPI.list()\<close> resolves with \<open>data\<close>.\<close>

definition loadAccounts :: "Account list \<Rightarrow> RenewState \<Rightarrow> RenewState" where
  "loadAccounts data s = s\<lparr>accounts := data\<rparr>"

text \<open>
  Everything the page does: its three effects and its handlers, each with what it
  reads from the outside. A run of the page is a list of these, applied in order.
\<close>

datatype pageEvent =
  LoadActivityLogs int
| SaveActivityLogs "nat \<Rightarrow> int"
| CheckRenewalStatus
| LoadAccounts "Account list"
| ToggleAccount int
| SelectAll
| SetRenewalCount "int option"
| HandleRenewal string string "nat \<Rightarrow> int" "renewRequest \<Rightarrow> renewOutcome"
| ClearActivityLogs

fun step :: "RenewState \<Rightarrow> pageEvent \<Rightarrow> RenewState" where
  "step s (LoadActivityLogs now) = loadActivityLogs now s"
| "step s (SaveActivityLogs clock) = saveActivityLogs clock s"
| "step s CheckRenewalStatus = checkRenewalStatus s"
| "step s (LoadAccounts data) = loadAccounts data s"
| "step s (ToggleAccount accountId) = toggleAccount accountId s"
| "step s SelectAll = selectAll s"
| "step s (SetRenewalCount parsed) = setRenewalCount parsed s"
| "step s (HandleRenewal stamp rnd clock renewListings) =
     handleRenewal stamp rnd clock renewListings s"
| "step s ClearActivityLogs = clearActivityLogs s"

definition run :: "pageEvent list \<Rightarrow> RenewState \<Rightarrow> RenewState" where
  "run events s = foldl step s events"

text \<open>
  The value under the key \<^verbatim>\<open>renewalActivityLogs\<close>, when there is one, is the JSON
  text of a non-empty array.
\<close>

definition nonEmptyArrayIfPresent :: "(string \<rightharpoonup> jstext) \<Rightarrow> bool" where
  "nonEmptyArrayIfPresent storage =
     (case storage ''renewalActivityLogs'' of
        None \<Rightarrow> True
      | Some (Text s) \<Rightarrow> False
      | Some (Stringified logs) \<Rightarrow> logs \<noteq> [])"

section \<open>Bulk Upload modal (src/unnamed/part_001)\<close>

record FacebookAccount =
  fb_id :: int
  fb_email :: string
  session_exists :: bool

text \<open>A browser \<^verbatim>\<open>File\<close>: its name and its MIME type.\<close>

record File =
  file_name :: string
  file_type :: string

record UploadError =
  row :: int
  error_text :: string

record UploadStats =
  success_count :: int
  error_count :: int
  num_posts :: int
  num_accounts :: int

text \<open>The value of the \<^verbatim>\<open>uploadResult\<close> state, shown by the inline result panel.\<close>

record UploadResult =
  upload_success :: bool
  upload_message :: string
  stats :: "UploadStats option"
  errors :: "UploadError list option"
  additional_errors :: "int option"

text \<open>The JSON body of the backend's reply.\<close>

record UploadData =
  data_message :: string
  data_error :: "string option"
  data_stats :: "UploadStats option"
  data_errors :: "UploadError list option"
  data_additional_errors :: "int option"

text \<open>
  The multipart request: the \<^verbatim>\<open>Authorization\<close> header and the three kinds of
  \<^verbatim>\<open>FormData\<close> entries, in the order they are appended.
\<close>

record UploadRequest =
  authorization :: string
  txt_file :: File
  form_account_ids :: "int list"
  images :: "File list"

text \<open>
  What \<^verbatim>\<open>fetch\<close> followed by \<^verbatim>\<open>response.json()\<close> does: either of them throws an
  error with a message, or the reply has an \<^verbatim>\<open>ok\<close> flag and a body.
\<close>

datatype uploadOutcome =
  Threw string
| Replied bool UploadData

datatype toastType = success_toast | error_toast

datatype timerAction = call_onClose

text \<open>
  The modal's state, the \<^verbatim>\<open>token\<close> entry of \<^verbatim>\<open>localStorage\<close>, and what the
  modal has done to the outside: the toasts raised through \<^verbatim>\<open>onToast\<close>, the number
  of calls of \<^verbatim>\<open>onSuccess\<close>, the timers set with \<^verbatim>\<open>setTimeout\<close> (delay in
  milliseconds and action), and the requests sent.
\<close>

record BulkUploadState =
  bulk_accounts :: "FacebookAccount list"
  bulk_selectedAccounts :: "int list"
  txtFile :: "File option"
  imageFiles :: "File list"
  bulk_loading :: bool
  uploadResult :: "UploadResult option"
  token :: "string option"
  toasts :: "(toastType \<times> string) list"
  onSuccess_calls :: nat
  timers :: "(nat \<times> timerAction) list"
  bulk_requests :: "UploadRequest list"

definition handleAccountToggle :: "int \<Rightarrow> BulkUploadState \<Rightarrow> BulkUploadState" where
  "handleAccountToggle accountId s =
     s\<lparr>bulk_selectedAccounts :=
         (if accountId \<in> set (bulk_selectedAccounts s)
          then filter (\<lambda>i. i \<noteq> accountId) (bulk_selectedAccounts s)
          else bulk_selectedAccounts s @ [accountId])\<rparr>"

definition handleSelectAllAccounts :: "BulkUploadState \<Rightarrow> BulkUploadState" where
  "handleSelectAllAccounts s =
     (if length (bulk_selectedAccounts s) = length (bulk_accounts s)
      then s\<lparr>bulk_selectedAccounts := []\<rparr>
      else s\<lparr>bulk_selectedAccounts := map fb_id (bulk_accounts s)\<rparr>)"

text \<open>\<^verbatim>\<open>onToast(type, message)\<close>\<close>

definition onToast :: "toastType \<Rightarrow> string \<Rightarrow> BulkUploadState \<Rightarrow> BulkUploadState" where
  "onToast ty msg s = s\<lparr>toasts := toasts s @ [(ty, msg)]\<rparr>"

text \<open>The \<^verbatim>\<open>catch\<close> block of \<^verbatim>\<open>handleSubmit\<close>, for a thrown error with message \<open>m\<close>.\<close>

definition upload_catch :: "string \<Rightarrow> BulkUploadState \<Rightarrow> BulkUploadState" where
  "upload_catch m s =
     (let errorMessage = or_string (Some m) ''Failed to upload TXT file''
      in onToast error_toast errorMessage
           (s\<lparr>uploadResult :=
                Some \<lparr>upload_success = False, upload_message = errorMessage, stats = None,
                      errors = None, additional_errors = None\<rparr>\<rparr>))"

text \<open>
  The request that \<^verbatim>\<open>handleSubmit\<close> builds: the text file, one
  \<^verbatim>\<open>account_ids[]\<close> entry per selected account, one \<^verbatim>\<open>images\<close> entry per image
  file, and the bearer token read from \<^verbatim>\<open>localStorage\<close> (the text \<^verbatim>\<open>null\<close> when
  there is none).
\<close>

definition uploadRequest :: "File \<Rightarrow> BulkUploadState \<Rightarrow> UploadRequest" where
  "uploadRequest file s =
     \<lparr>authorization = ''Bearer '' @ (case token s of None \<Rightarrow> ''null'' | Some t \<Rightarrow> t),
      txt_file = file,
      form_account_ids = bulk_selectedAccounts s,
      images = imageFiles s\<rparr>"

text \<open>
  \<^verbatim>\<open>handleSubmit\<close> of the Bulk Upload modal; \<open>fetch\<close> is the backend behind
  \<^verbatim>\<open>POST /posts/bulk-upload-with-images/\<close>.
\<close>

definition bulk_handleSubmit ::
  "(UploadRequest \<Rightarrow> uploadOutcome) \<Rightarrow> BulkUploadState \<Rightarrow> BulkUploadState"
where
  "bulk_handleSubmit fetch s =
     (case txtFile s of
        None \<Rightarrow> onToast error_toast ''Please select a TXT file'' s
      | Some file \<Rightarrow>
          if length (bulk_selectedAccounts s) = 0
          then onToast error_toast ''Please select at least one account'' s
          else
            let s1 = s\<lparr>bulk_loading := True, uploadResult := None\<rparr>;
                request = uploadRequest file s;
                s2 = s1\<lparr>bulk_requests := bulk_requests s1 @ [request]\<rparr>;
                s3 = (case fetch request of
                        Threw m \<Rightarrow> upload_catch m s2
                      | Replied ok data \<Rightarrow>
                          if \<not> ok
                          then upload_catch (or_string (data_error data) ''Upload failed'') s2
                          else
                            let s4 = s2\<lparr>uploadResult :=
                                          Some \<lparr>upload_success = True,
                                                upload_message = data_message data,
                                                stats = data_stats data,
                                                errors = data_errors data,
                                                additional_errors = data_additional_errors data\<rparr>\<rparr>;
                                s5 = onToast success_toast (data_message data) s4;
                                s6 = s5\<lparr>txtFile := None, imageFiles := [],
                                        bulk_selectedAccounts := []\<rparr>;
                                s7 = s6\<lparr>onSuccess_calls := onSuccess_calls s6 + 1\<rparr>
                            in s7\<lparr>timers := timers s7 @ [(2000, call_onClose)]\<rparr>)
            in s3\<lparr>bulk_loading := False\<rparr>)"

section \<open>Image proxy route (src/app/api/image-proxy/route.ts)\<close>

text \<open>
  The upstream reply as the handler reads it: the status, the
  \<^verbatim>\<open>content-type\<close> header when there is one, and the bytes that
  \<^verbatim>\<open>arrayBuffer()\<close> yields (\<open>None\<close> when reading the body throws).
\<close>

record UpstreamResponse =
  upstream_status :: nat
  content_type :: "string option"
  arrayBuffer :: "nat list option"

text \<open>\<^verbatim>\<open>response.ok\<close>: the status is in the range 200 to 299.\<close>

definition ok :: "UpstreamResponse \<Rightarrow> bool" where
  "ok r = (200 \<le> upstream_status r \<and> upstream_status r \<le> 299)"

datatype fetchOutcome =
  FetchThrew
| Fetched UpstreamResponse

datatype responseBody =
  TextBody string
| BytesBody "nat list"

record NextResponse =
  body :: responseBody
  status :: nat
  headers :: "(string \<times> string) list"

text \<open>
  \<^verbatim>\<open>new NextResponse(body, { status, headers })\<close> with a body; \<open>None\<close> when the
  constructor throws. It throws a \<^verbatim>\<open>RangeError\<close> for a status outside 200 to 599, and
  a \<^verbatim>\<open>TypeError\<close> when a body is given with a status that allows none (101, 103, 204,
  205, 304). A text body brings the header \<^verbatim>\<open>content-type: text/plain;charset=UTF-8\<close>
  unless the given headers name a content type. Header names are written in lower case,
  as the \<^verbatim>\<open>Headers\<close> object holds them.
\<close>

definition new_NextResponse ::
  "responseBody \<Rightarrow> nat \<Rightarrow> (string \<times> string) list \<Rightarrow> NextResponse option"
where
  "new_NextResponse b st hs =
     (if st < 200 \<or> 599 < st then None
      else if st \<in> {101, 103, 204, 205, 304} then None
      else Some \<lparr>body = b, status = st,
                 headers =
                   (case b of
                      TextBody t \<Rightarrow>
                        if map_of hs ''content-type'' = None
                        then hs @ [(''content-type'', ''text/plain;charset=UTF-8'')]
                        else hs
                    | BytesBody bytes \<Rightarrow> hs)\<rparr>)"

text \<open>
  The \<^verbatim>\<open>try\<close> block of \<^verbatim>\<open>GET\<close>; \<open>None\<close> when something in it throws: the fetch, the
  reading of the bytes, or the constructor of the response.
\<close>

definition GET_try ::
  "(string \<Rightarrow> (string \<times> string) list \<Rightarrow> fetchOutcome) \<Rightarrow> string \<Rightarrow> NextResponse option"
where
  "GET_try fetch imageUrl =
     (case fetch imageUrl [(''ngrok-skip-browser-warning'', ''true'')] of
        FetchThrew \<Rightarrow> None
      | Fetched response \<Rightarrow>
          if \<not> ok response
          then new_NextResponse (TextBody ''Failed to fetch image'') (upstream_status response) []
          else (case arrayBuffer response of
                  None \<Rightarrow> None
                | Some imageBuffer \<Rightarrow>
                    let contentType = or_string (content_type response) ''image/jpeg''
                    in new_NextResponse (BytesBody imageBuffer) 200
                         [(''content-type'', contentType),
                          (''cache-control'', ''public, max-age=31536000, immutable'')]))"

text \<open>
  \<^verbatim>\<open>GET\<close>: \<open>url\<close> is \<^verbatim>\<open>searchParams.get("url")\<close>, and \<open>fetch\<close> takes the address
  and the request headers. \<^verbatim>\<open>!imageUrl\<close> holds for a missing parameter and for an
  empty one. Whatever the \<^verbatim>\<open>try\<close> block throws is answered by the \<^verbatim>\<open>catch\<close> block.
  The result is \<open>None\<close> when the handler itself throws.
\<close>

definition GET ::
  "(string \<Rightarrow> (string \<times> string) list \<Rightarrow> fetchOutcome) \<Rightarrow> string option \<Rightarrow> NextResponse option"
where
  "GET fetch url =
     (case url of
        None \<Rightarrow> new_NextResponse (TextBody ''Missing image URL'') 400 []
      | Some imageUrl \<Rightarrow>
          if imageUrl = [] then new_NextResponse (TextBody ''Missing image URL'') 400 []
          else (case GET_try fetch imageUrl of
                  Some answer \<Rightarrow> Some answer
                | None \<Rightarrow> new_NextResponse (TextBody ''Failed to load image'') 500 []))"

section \<open>Import Session modal (src/unnamed/part_002)\<close>

subsection \<open>\<^verbatim>\<open>JSON.parse\<close> and \<^verbatim>\<open>String.prototype.trim\<close>\<close>

text \<open>
  The value that \<^verbatim>\<open>JSON.parse\<close> returns. The modal only passes it on to the backend,
  so numbers and strings are kept as they are written in the text (escape sequences are
  checked, not decoded).
\<close>

datatype json =
  JNull
| JBool bool
| JNumber string
| JString string
| JArray "json list"
| JObject "(string \<times> json) list"

datatype json_token =
  LBRACE | RBRACE | LBRACKET | RBRACKET | COLON | COMMA
| TSTRING string | TNUMBER string | TTRUE | TFALSE | TNULL

text \<open>JSON white space: tab, line feed, carriage return, space.\<close>

definition is_json_ws :: "char \<Rightarrow> bool" where
  "is_json_ws c = (c = CHR 0x09 \<or> c = CHR 0x0A \<or> c = CHR 0x0D \<or> c = CHR 0x20)"

definition is_digit :: "char \<Rightarrow> bool" where
  "is_digit c = (of_char (CHR ''0'') \<le> (of_char c :: nat) \<and> (of_char c :: nat) \<le> of_char (CHR ''9''))"

definition is_hex :: "char \<Rightarrow> bool" where
  "is_hex c =
     (is_digit c \<or>
      (of_char (CHR ''a'') \<le> (of_char c :: nat) \<and> (of_char c :: nat) \<le> of_char (CHR ''f'')) \<or>
      (of_char (CHR ''A'') \<le> (of_char c :: nat) \<and> (of_char c :: nat) \<le> of_char (CHR ''F'')))"

text \<open>
  The rest of a string token after its opening quote: the characters up to the closing
  quote, and the text after it. A control character, an unknown escape and a missing
  closing quote are errors.
\<close>

fun scan_string :: "string \<Rightarrow> (string \<times> string) option" where
  "scan_string [] = None"
| "scan_string (c # cs) =
     (if c = CHR 0x22 then Some ([], cs)
      else if c = CHR 0x5C then
        (case cs of
           [] \<Rightarrow> None
         | e # es \<Rightarrow>
             if e \<in> set [CHR 0x22, CHR 0x5C, CHR ''/'', CHR ''b'', CHR ''f'', CHR ''n'', CHR ''r'', CHR ''t'']
             then map_option (\<lambda>(chars, rest). (c # e # chars, rest)) (scan_string es)
             else if e = CHR ''u'' \<and> 4 \<le> length es \<and> list_all is_hex (take 4 es)
             then map_option (\<lambda>(chars, rest). (c # e # take 4 es @ chars, rest))
                    (scan_string (drop 4 es))
             else None)
      else if of_char c < (0x20 :: nat) then None
      else map_option (\<lambda>(chars, rest). (c # chars, rest)) (scan_string cs))"

text \<open>An optional fraction: a point and at least one digit.\<close>

definition scan_fraction :: "string \<Rightarrow> (string \<times> string) option" where
  "scan_fraction s =
     (case s of
        [] \<Rightarrow> Some ([], s)
      | c # cs \<Rightarrow>
          if c = CHR ''.''
          then (if takeWhile is_digit cs = [] then None
                else Some (c # takeWhile is_digit cs, dropWhile is_digit cs))
          else Some ([], s))"

text \<open>An optional exponent: \<^verbatim>\<open>e\<close> or \<^verbatim>\<open>E\<close>, an optional sign and at least one digit.\<close>

definition scan_exponent :: "string \<Rightarrow> (string \<times> string) option" where
  "scan_exponent s =
     (case s of
        [] \<Rightarrow> Some ([], s)
      | c # cs \<Rightarrow>
          if c = CHR ''e'' \<or> c = CHR ''E''
          then (let (sign, r) =
                      (case cs of
                         [] \<Rightarrow> ([], cs)
                       | d # ds \<Rightarrow> if d = CHR ''+'' \<or> d = CHR ''-'' then ([d], ds) else ([], cs))
                in if takeWhile is_digit r = [] then None
                   else Some (c # sign @ takeWhile is_digit r, dropWhile is_digit r))
          else Some ([], s))"

text \<open>The integer part: a single \<^verbatim>\<open>0\<close>, or digits that start with a non-zero digit.\<close>

definition scan_integer :: "string \<Rightarrow> (string \<times> string) option" where
  "scan_integer s =
     (case s of
        [] \<Rightarrow> None
      | c # cs \<Rightarrow>
          if c = CHR ''0'' then Some ([c], cs)
          else if takeWhile is_digit s = [] then None
          else Some (takeWhile is_digit s, dropWhile is_digit s))"

text \<open>
  A number token: an optional minus, the integer part, then the optional fraction and
  exponent.
\<close>

definition scan_number :: "string \<Rightarrow> (string \<times> string) option" where
  "scan_number s =
     (let (sign, s1) =
            (case s of
               [] \<Rightarrow> ([], s)
             | c # cs \<Rightarrow> if c = CHR ''-'' then ([c], cs) else ([], s))
      in case scan_integer s1 of
           None \<Rightarrow> None
         | Some (digits, s2) \<Rightarrow>
             (case scan_fraction s2 of
                None \<Rightarrow> None
              | Some (fraction, s3) \<Rightarrow>
                  (case scan_exponent s3 of
                     None \<Rightarrow> None
                   | Some (exponent, s4) \<Rightarrow> Some (sign @ digits @ fraction @ exponent, s4))))"

function tokenize :: "string \<Rightarrow> json_token list option" where
  "tokenize [] = Some []"
| "tokenize (c # cs) =
     (if is_json_ws c then tokenize cs
      else if c = CHR ''{'' then map_option ((#) LBRACE) (tokenize cs)
      else if c = CHR ''}'' then map_option ((#) RBRACE) (tokenize cs)
      else if c = CHR ''['' then map_option ((#) LBRACKET) (tokenize cs)
      else if c = CHR '']'' then map_option ((#) RBRACKET) (tokenize cs)
      else if c = CHR '':'' then map_option ((#) COLON) (tokenize cs)
      else if c = CHR '','' then map_option ((#) COMMA) (tokenize cs)
      else if c = CHR 0x22 then
        (case scan_string cs of
           None \<Rightarrow> None
         | Some (chars, rest) \<Rightarrow> map_option ((#) (TSTRING chars)) (tokenize rest))
      else if c = CHR ''-'' \<or> is_digit c then
        (case scan_number (c # cs) of
           None \<Rightarrow> None
         | Some (lexeme, rest) \<Rightarrow> map_option ((#) (TNUMBER lexeme)) (tokenize rest))
      else if take 4 (c # cs) = ''true'' then map_option ((#) TTRUE) (tokenize (drop 3 cs))
      else if take 5 (c # cs) = ''false'' then map_option ((#) TFALSE) (tokenize (drop 4 cs))
      else if take 4 (c # cs) = ''null'' then map_option ((#) TNULL) (tokenize (drop 3 cs))
      else None)"
  by pat_completeness auto
termination
proof (relation "measure length")
  show "wf (measure (length :: string \<Rightarrow> nat))"
    by simp
next
  fix c :: char and cs x2 chars rest
  assume "scan_string cs = Some x2" and "(chars, rest) = x2"
  then have found: "scan_string cs = Some (chars, rest)"
    by simp
  have shorter: "length r \<le> length s" if "scan_string s = Some (b, r)" for s b r
    using that
  proof (induction s arbitrary: b r rule: scan_string.induct)
    case 1
    then show ?case by simp
  next
    case (2 c cs)
    then show ?case
      by (fastforce split: if_splits list.splits)
  qed
  from shorter [OF found] show "(rest, c # cs) \<in> measure length"
    by simp
next
  fix c :: char and cs x2 lexeme rest
  assume "scan_number (c # cs) = Some x2" and "(lexeme, rest) = x2"
  then have found: "scan_number (c # cs) = Some (lexeme, rest)"
    by simp
  have fraction: "length r \<le> length s" if "scan_fraction s = Some (f, r)" for s f r
    using that
    by (auto simp: scan_fraction_def length_dropWhile_le le_SucI split: list.splits if_splits)
  have exponent: "length r \<le> length s" if "scan_exponent s = Some (e, r)" for s e r
    using that
    by (auto simp: scan_exponent_def length_dropWhile_le le_SucI
             split: list.splits if_splits prod.splits
             intro: le_trans [OF length_dropWhile_le])
  have integer: "length r < length s" if "scan_integer s = Some (d, r)" for s d r
  proof (cases s)
    case Nil
    with that show ?thesis by (simp add: scan_integer_def)
  next
    case (Cons a as)
    show ?thesis
    proof (cases "a = CHR ''0''")
      case True
      with that Cons show ?thesis by (auto simp: scan_integer_def)
    next
      case False
      with that Cons have r: "r = dropWhile is_digit s" and "takeWhile is_digit s \<noteq> []"
        by (auto simp: scan_integer_def split: if_splits)
      then have "is_digit a"
        using Cons by (auto split: if_splits)
      with r Cons have "r = dropWhile is_digit as"
        by simp
      then have "length r \<le> length as"
        by (simp add: length_dropWhile_le)
      with Cons show ?thesis by simp
    qed
  qed
  have parts: "\<exists>s1 d s2 f s3 e. length s1 \<le> length (c # cs) \<and>
      scan_integer s1 = Some (d, s2) \<and> scan_fraction s2 = Some (f, s3) \<and>
      scan_exponent s3 = Some (e, rest)"
  proof (cases "c = CHR ''-''")
    case True
    with found obtain d s2 f s3 e where "scan_integer cs = Some (d, s2)"
        "scan_fraction s2 = Some (f, s3)" "scan_exponent s3 = Some (e, rest)"
      by (auto simp: scan_number_def split: option.splits)
    then show ?thesis
      by (intro exI [of _ cs] exI conjI) simp_all
  next
    case False
    with found obtain d s2 f s3 e where "scan_integer (c # cs) = Some (d, s2)"
        "scan_fraction s2 = Some (f, s3)" "scan_exponent s3 = Some (e, rest)"
      by (auto simp: scan_number_def split: option.splits)
    then show ?thesis
      by (intro exI [of _ "c # cs"] exI conjI) simp_all
  qed
  then obtain s1 d s2 f s3 e where
    s1: "length s1 \<le> length (c # cs)" and
    i: "scan_integer s1 = Some (d, s2)" and
    f: "scan_fraction s2 = Some (f, s3)" and e: "scan_exponent s3 = Some (e, rest)"
    by blast
  from s1 integer [OF i] fraction [OF f] exponent [OF e] show "(rest, c # cs) \<in> measure length"
    by simp
qed auto

text \<open>
  The parser reads the tokens with a stack of the arrays and objects that are still
  open. An open object holds the key whose value is being read.
\<close>

datatype frame =
  FArray "json list"
| FObject "(string \<times> json) list" "string option"

datatype expecting =
  Value
| ValueOrEnd
| Key
| KeyOrEnd
| Colon
| CommaOrEnd
| Finished json

text \<open>A value \<open>v\<close> is complete: it is the whole text, or it goes into the innermost open container.\<close>

fun complete :: "json \<Rightarrow> frame list \<Rightarrow> (frame list \<times> expecting) option" where
  "complete v [] = Some ([], Finished v)"
| "complete v (FArray elements # stack) = Some (FArray (elements @ [v]) # stack, CommaOrEnd)"
| "complete v (FObject members (Some k) # stack) =
     Some (FObject (members @ [(k, v)]) None # stack, CommaOrEnd)"
| "complete v (FObject members None # stack) = None"

fun scalar :: "json_token \<Rightarrow> json option" where
  "scalar (TSTRING s) = Some (JString s)"
| "scalar (TNUMBER n) = Some (JNumber n)"
| "scalar TTRUE = Some (JBool True)"
| "scalar TFALSE = Some (JBool False)"
| "scalar TNULL = Some JNull"
| "scalar t = None"

fun read_value :: "json_token \<Rightarrow> frame list \<Rightarrow> (frame list \<times> expecting) option" where
  "read_value LBRACKET stack = Some (FArray [] # stack, ValueOrEnd)"
| "read_value LBRACE stack = Some (FObject [] None # stack, KeyOrEnd)"
| "read_value t stack = (case scalar t of None \<Rightarrow> None | Some v \<Rightarrow> complete v stack)"

fun read_key :: "json_token \<Rightarrow> frame list \<Rightarrow> (frame list \<times> expecting) option" where
  "read_key (TSTRING k) (FObject members None # stack) =
     Some (FObject members (Some k) # stack, Colon)"
| "read_key t stack = None"

fun close_array :: "frame list \<Rightarrow> (frame list \<times> expecting) option" where
  "close_array (FArray elements # stack) = complete (JArray elements) stack"
| "close_array stack = None"

fun close_object :: "frame list \<Rightarrow> (frame list \<times> expecting) option" where
  "close_object (FObject members None # stack) = complete (JObject members) stack"
| "close_object stack = None"

fun after_comma :: "frame list \<Rightarrow> (frame list \<times> expecting) option" where
  "after_comma (FArray elements # stack) = Some (FArray elements # stack, Value)"
| "after_comma (FObject members None # stack) = Some (FObject members None # stack, Key)"
| "after_comma stack = None"

fun parse_token :: "frame list \<times> expecting \<Rightarrow> json_token \<Rightarrow> (frame list \<times> expecting) option" where
  "parse_token (stack, Value) t = read_value t stack"
| "parse_token (stack, ValueOrEnd) t =
     (if t = RBRACKET then close_array stack else read_value t stack)"
| "parse_token (stack, Key) t = read_key t stack"
| "parse_token (stack, KeyOrEnd) t =
     (if t = RBRACE then close_object stack else read_key t stack)"
| "parse_token (stack, Colon) t = (if t = COLON then Some (stack, Value) else None)"
| "parse_token (stack, CommaOrEnd) t =
     (if t = COMMA then after_comma stack
      else if t = RBRACKET then close_array stack
      else if t = RBRACE then close_object stack
      else None)"
| "parse_token (stack, Finished v) t = None"

fun parse_tokens :: "frame list \<times> expecting \<Rightarrow> json_token list \<Rightarrow> json option" where
  "parse_tokens (stack, Finished v) [] = (if stack = [] then Some v else None)"
| "parse_tokens state [] = None"
| "parse_tokens state (t # ts) =
     (case parse_token state t of None \<Rightarrow> None | Some state' \<Rightarrow> parse_tokens state' ts)"

text \<open>\<^verbatim>\<open>JSON.parse(text)\<close>; \<open>None\<close> when it throws a \<^verbatim>\<open>SyntaxError\<close>.\<close>

definition JSON_parse :: "string \<Rightarrow> json option" where
  "JSON_parse text = (case tokenize text of None \<Rightarrow> None | Some ts \<Rightarrow> parse_tokens ([], Value) ts)"

text \<open>
  The characters that \<^verbatim>\<open>trim()\<close> removes from both ends, among the characters below
  256 that a \<open>char\<close> can hold: tab, line feed, vertical tab, form feed, carriage
  return, space and no-break space.
\<close>

definition isWhiteSpace :: "char \<Rightarrow> bool" where
  "isWhiteSpace c =
     (c = CHR 0x09 \<or> c = CHR 0x0A \<or> c = CHR 0x0B \<or> c = CHR 0x0C \<or> c = CHR 0x0D \<or>
      c = CHR 0x20 \<or> c = CHR 0xA0)"

definition trim :: "string \<Rightarrow> string" where
  "trim s = rev (dropWhile isWhiteSpace (rev (dropWhile isWhiteSpace s)))"

subsection \<open>The modal\<close>

text \<open>\<^verbatim>\<open>name.endsWith(suffix)\<close>\<close>

definition endsWith :: "string \<Rightarrow> string \<Rightarrow> bool" where
  "endsWith s suffix =
     (length suffix \<le> length s \<and> drop (length s - length suffix) s = suffix)"

text \<open>\<^verbatim>\<open>s.replace(pattern, replacement)\<close> with a text pattern: the first occurrence only.\<close>

fun replace_first :: "string \<Rightarrow> string \<Rightarrow> string \<Rightarrow> string" where
  "replace_first pattern replacement [] = (if pattern = [] then replacement else [])"
| "replace_first pattern replacement (c # cs) =
     (if take (length pattern) (c # cs) = pattern
      then replacement @ drop (length pattern) (c # cs)
      else c # replace_first pattern replacement cs)"

record ImportDetails =
  details_filename :: string
  format :: string
  converted :: bool
  cookies_count :: int
  facebook_user_id :: string
  details_email :: string
  account_created :: bool
  details_account_id :: int

record ImportRequest =
  session_data :: json
  request_filename :: string

text \<open>
  What \<^verbatim>\<open>await accountsAPI.importSession(...)\<close> does: it resolves with the details of
  the import, or it throws; \<open>ImportFailed e st\<close> carries
  \<^verbatim>\<open>error.response?.data?.error\<close> and \<^verbatim>\<open>error.response?.status\<close> when they exist.
\<close>

datatype importOutcome =
  Imported ImportDetails
| ImportFailed "string option" "nat option"

datatype inputMethod = paste | upload

datatype noticeType = success_notice | error_notice

text \<open>
  The modal's state, and what it has done to the outside: the import requests sent, the
  timers set with \<^verbatim>\<open>setTimeout\<close> (the delay in milliseconds, and the message and type
  that the timer passes to \<^verbatim>\<open>onSuccess\<close> after it has closed the modal), and the
  messages written with \<^verbatim>\<open>console.error\<close>.
\<close>

record ImportState =
  sessionData :: string
  filename :: string
  import_loading :: bool
  error :: string
  import_success :: bool
  importDetails :: "ImportDetails option"
  inputMethod :: inputMethod
  import_requests :: "ImportRequest list"
  import_timers :: "(nat \<times> string \<times> noticeType) list"
  console_errors :: "string list"

definition import_initialState :: ImportState where
  "import_initialState =
     \<lparr>sessionData = [], filename = [], import_loading = False, error = [],
      import_success = False, importDetails = None, inputMethod = upload,
      import_requests = [], import_timers = [], console_errors = []\<rparr>"

text \<open>
  \<^verbatim>\<open>handleFileUpload\<close>, together with the \<^verbatim>\<open>onload\<close> callback of its reader; the file
  is given by its name and its text.
\<close>

definition handleFileUpload :: "(string \<times> string) option \<Rightarrow> ImportState \<Rightarrow> ImportState" where
  "handleFileUpload file s =
     (case file of
        None \<Rightarrow> s
      | Some (name, content) \<Rightarrow>
          if \<not> endsWith name ''.json'' then s\<lparr>error := ''Please upload a JSON file''\<rparr>
          else
            let s1 = s\<lparr>filename := replace_first ''.json'' [] name\<rparr>
            in (case JSON_parse content of
                  Some parsed \<Rightarrow> s1\<lparr>sessionData := content, error := []\<rparr>
                | None \<Rightarrow> s1\<lparr>error := ''Invalid JSON file format'', sessionData := []\<rparr>))"

text \<open>The \<^verbatim>\<open>onChange\<close> handler of the textarea, for the new text \<open>value\<close>.\<close>

definition sessionData_onChange :: "string \<Rightarrow> ImportState \<Rightarrow> ImportState" where
  "sessionData_onChange value s =
     (let s1 = s\<lparr>sessionData := value\<rparr>
      in if trim value = [] then s1\<lparr>error := []\<rparr>
         else (case JSON_parse value of
                 Some parsed \<Rightarrow> s1\<lparr>error := []\<rparr>
               | None \<Rightarrow> s1\<lparr>error := ''Invalid JSON format. Please check your pasted data.''\<rparr>))"

text \<open>The \<^verbatim>\<open>onChange\<close> handler of the filename input.\<close>

definition filename_onChange :: "string \<Rightarrow> ImportState \<Rightarrow> ImportState" where
  "filename_onChange value s = s\<lparr>filename := value\<rparr>"

text \<open>
  The \<^verbatim>\<open>disabled\<close> attribute of the submit button:
  \<^verbatim>\<open>loading || !sessionData.trim() || !filename.trim()\<close>.
\<close>

definition submitDisabled :: "ImportState \<Rightarrow> bool" where
  "submitDisabled s =
     (import_loading s \<or> trim (sessionData s) = [] \<or> trim (filename s) = [])"

text \<open>\<^verbatim>\<open>handleSubmit\<close> of the Import Session modal.\<close>

definition import_handleSubmit ::
  "(ImportRequest \<Rightarrow> importOutcome) \<Rightarrow> ImportState \<Rightarrow> ImportState"
where
  "import_handleSubmit importSession s =
     (let s0 = s\<lparr>error := [], import_success := False, importDetails := None\<rparr>
      in if trim (sessionData s) = [] then s0\<lparr>error := ''Please provide session data''\<rparr>
         else if trim (filename s) = [] then s0\<lparr>error := ''Please provide a filename''\<rparr>
         else
           let s1 = s0\<lparr>import_loading := True\<rparr>
           in (case JSON_parse (sessionData s) of
                 None \<Rightarrow>
                   s1\<lparr>error := ''Invalid JSON format. Please paste valid JSON data from your browser session export.'',
                      import_loading := False\<rparr>
               | Some parsedData \<Rightarrow>
                   let request = \<lparr>session_data = parsedData, request_filename = filename s\<rparr>;
                       s2 = s1\<lparr>import_requests := import_requests s1 @ [request]\<rparr>;
                       s3 = (case importSession request of
                               Imported details \<Rightarrow>
                                 let successMsg =
                                       ''Session imported successfully for '' @ details_email details @
                                       ''! '' @
                                       (if account_created details then ''New account created.''
                                        else ''Account updated.'')
                                 in s2\<lparr>import_success := True, importDetails := Some details,
                                       import_timers :=
                                         import_timers s2 @ [(1500, successMsg, success_notice)]\<rparr>
                             | ImportFailed err st \<Rightarrow>
                                 let errorMsg = or_string err ''Failed to import session'';
                                     s4 = s2\<lparr>error := errorMsg,
                                             import_timers :=
                                               import_timers s2 @ [(3000, errorMsg, error_notice)]\<rparr>
                                 in if st \<noteq> Some 400
                                    then s4\<lparr>console_errors :=
                                              console_errors s4 @
                                                [''Import session error: '' @ errorMsg]\<rparr>
                                    else s4)
                   in s3\<lparr>import_loading := False\<rparr>))"

section \<open>Verified properties\<close>

subsection \<open>Renewal page: the job marker and the loading flag\<close>

text \<open>
  C1. Every way a renewal invocation ends leaves the active-job marker cleared (the
  state is \<^verbatim>\<open>null\<close> and the key \<^verbatim>\<open>activeRenewalJobId\<close> is removed from
  \<^verbatim>\<open>localStorage\<close>) and the loading flag false: \<open>handleRenewal\<close> once it has passed
  its two guards, whether the backend call resolves or throws, and the load-time check
  when it finds a stored job marker.
\<close>

theorem renewal_always_clears_marker:
  "(selectedAccounts s \<noteq> [] \<and> 1 \<le> renewalCount s \<and> renewalCount s \<le> 20 \<longrightarrow>
      activeRenewalJobId (handleRenewal stamp rnd clock renewListings s) = None \<and>
      localStorage (handleRenewal stamp rnd clock renewListings s) ''activeRenewalJobId'' = None \<and>
      \<not> loading (handleRenewal stamp rnd clock renewListings s)) \<and>
   (activeRenewalJobId s = Some jobId \<and> truthy jobId \<longrightarrow>
      activeRenewalJobId (checkRenewalStatus s) = None \<and>
      localStorage (checkRenewalStatus s) ''activeRenewalJobId'' = None \<and>
      \<not> loading (checkRenewalStatus s))"
proof (intro conjI impI)
  assume guards: "selectedAccounts s \<noteq> [] \<and> 1 \<le> renewalCount s \<and> renewalCount s \<le> 20"
  let ?request = "\<lparr>account_ids = selectedAccounts s, renewal_count = renewalCount s\<rparr>"
  show "activeRenewalJobId (handleRenewal stamp rnd clock renewListings s) = None"
    using guards
    by (cases "renewListings ?request") (simp_all add: handleRenewal_def resetRenewalState_def Let_def)
  show "localStorage (handleRenewal stamp rnd clock renewListings s) ''activeRenewalJobId'' = None"
    using guards
    by (cases "renewListings ?request") (simp_all add: handleRenewal_def resetRenewalState_def Let_def)
  show "\<not> loading (handleRenewal stamp rnd clock renewListings s)"
    using guards
    by (cases "renewListings ?request") (simp_all add: handleRenewal_def resetRenewalState_def Let_def)
next
  assume marker: "activeRenewalJobId s = Some jobId \<and> truthy jobId"
  then show "activeRenewalJobId (checkRenewalStatus s) = None"
    by (simp add: checkRenewalStatus_def)
  from marker show "localStorage (checkRenewalStatus s) ''activeRenewalJobId'' = None"
    by (simp add: checkRenewalStatus_def)
  from marker show "\<not> loading (checkRenewalStatus s)"
    by (simp add: checkRenewalStatus_def)
qed

theorem renewal_always_clears_marker_witness:
  "(let s = (initialState Map.empty)\<lparr>selectedAccounts := [7], renewalCount := 20\<rparr>;
        resolved = handleRenewal ''1700000000000'' ''k3j9x0a1b'' (\<lambda>i. 1700000000500)
                     (\<lambda>request. Resolved \<lparr>response_results = [], total_renewed = None\<rparr>) s;
        rejected = handleRenewal ''1700000000000'' ''k3j9x0a1b'' (\<lambda>i. 1700000000500)
                     (\<lambda>request. Rejected (Some ''Session expired'')) s
    in selectedAccounts s \<noteq> [] \<and> 1 \<le> renewalCount s \<and> renewalCount s \<le> 20 \<and>
       activeRenewalJobId resolved = None \<and>
       localStorage resolved ''activeRenewalJobId'' = None \<and> \<not> loading resolved \<and>
       activeRenewalJobId rejected = None \<and>
       localStorage rejected ''activeRenewalJobId'' = None \<and> \<not> loading rejected \<and>
       alerts rejected = [''Session expired'']) \<and>
   (let s = initialState [''activeRenewalJobId'' \<mapsto> Text ''renewal_1700000000000_k3j9x0a1b'']
    in activeRenewalJobId s = Some (Text ''renewal_1700000000000_k3j9x0a1b'') \<and>
       truthy (Text ''renewal_1700000000000_k3j9x0a1b'') \<and>
       activeRenewalJobId (checkRenewalStatus s) = None \<and>
       localStorage (checkRenewalStatus s) ''activeRenewalJobId'' = None \<and>
       \<not> loading (checkRenewalStatus s))"
  using renewal_always_clears_marker
          [of "(initialState Map.empty)\<lparr>selectedAccounts := [7], renewalCount := 20\<rparr>"
              "''1700000000000''" "''k3j9x0a1b''" "\<lambda>i. 1700000000500"
              "\<lambda>request. Resolved \<lparr>response_results = [], total_renewed = None\<rparr>"]
        renewal_always_clears_marker
          [of "(initialState Map.empty)\<lparr>selectedAccounts := [7], renewalCount := 20\<rparr>"
              "''1700000000000''" "''k3j9x0a1b''" "\<lambda>i. 1700000000500"
              "\<lambda>request. Rejected (Some ''Session expired'')"]
        renewal_always_clears_marker
          [where s = "initialState [''activeRenewalJobId'' \<mapsto> Text ''renewal_1700000000000_k3j9x0a1b'']"
             and jobId = "Text ''renewal_1700000000000_k3j9x0a1b''"]
  by (simp add: initialState_def Let_def handleRenewal_def resetRenewalState_def)

subsection \<open>Select-all toggles\<close>

text \<open>
  C4 (as stated, refuted). With two accounts and only the first one selected, two
  select-all toggles end with nothing selected, on the Renewal page and on the Bulk
  Upload modal alike.
\<close>

theorem selectAll_twice_counterexample:
  "set (selectedAccounts (selectAll (selectAll
      ((initialState Map.empty)
         \<lparr>accounts := [\<lparr>acct_id = 1, acct_email = ''a@x.com''\<rparr>,
                       \<lparr>acct_id = 2, acct_email = ''b@x.com''\<rparr>],
          selectedAccounts := [1]\<rparr>)))) \<noteq> set [1] \<and>
   set (bulk_selectedAccounts (handleSelectAllAccounts (handleSelectAllAccounts
      \<lparr>bulk_accounts = [\<lparr>fb_id = 1, fb_email = ''a@x.com'', session_exists = True\<rparr>,
                         \<lparr>fb_id = 2, fb_email = ''b@x.com'', session_exists = True\<rparr>],
       bulk_selectedAccounts = [1], txtFile = None, imageFiles = [], bulk_loading = False,
       uploadResult = None, token = None, toasts = [], onSuccess_calls = 0, timers = [],
       bulk_requests = []\<rparr>))) \<noteq> set [1]"
  by (simp add: selectAll_def handleSelectAllAccounts_def initialState_def)

text \<open>
  C4 (amended). Two select-all toggles change nothing but the selection. They return
  the original selection set when the selection was empty, or held exactly the ids of
  all accounts in as many entries as there are accounts. From any other non-empty
  selection whose length differs from the number of accounts they leave the selection
  empty.
\<close>

theorem selectAll_twice:
  "selectAll (selectAll s) = s\<lparr>selectedAccounts := selectedAccounts (selectAll (selectAll s))\<rparr> \<and>
   (selectedAccounts s = [] \<or>
    set (selectedAccounts s) = set (map acct_id (accounts s)) \<and>
    length (selectedAccounts s) = length (accounts s) \<longrightarrow>
      set (selectedAccounts (selectAll (selectAll s))) = set (selectedAccounts s)) \<and>
   (selectedAccounts s \<noteq> [] \<and> length (selectedAccounts s) \<noteq> length (accounts s) \<longrightarrow>
      selectedAccounts (selectAll (selectAll s)) = []) \<and>
   handleSelectAllAccounts (handleSelectAllAccounts b) =
     b\<lparr>bulk_selectedAccounts :=
         bulk_selectedAccounts (handleSelectAllAccounts (handleSelectAllAccounts b))\<rparr> \<and>
   (bulk_selectedAccounts b = [] \<or>
    set (bulk_selectedAccounts b) = set (map fb_id (bulk_accounts b)) \<and>
    length (bulk_selectedAccounts b) = length (bulk_accounts b) \<longrightarrow>
      set (bulk_selectedAccounts (handleSelectAllAccounts (handleSelectAllAccounts b))) =
      set (bulk_selectedAccounts b)) \<and>
   (bulk_selectedAccounts b \<noteq> [] \<and>
    length (bulk_selectedAccounts b) \<noteq> length (bulk_accounts b) \<longrightarrow>
      bulk_selectedAccounts (handleSelectAllAccounts (handleSelectAllAccounts b)) = [])"
proof -
  have page: "selectAll (selectAll s) =
      s\<lparr>selectedAccounts := selectedAccounts (selectAll (selectAll s))\<rparr>"
    by (simp add: selectAll_def)
  have page_back: "selectedAccounts s = [] \<or>
      set (selectedAccounts s) = set (map acct_id (accounts s)) \<and>
      length (selectedAccounts s) = length (accounts s) \<longrightarrow>
        set (selectedAccounts (selectAll (selectAll s))) = set (selectedAccounts s)"
    by (auto simp: selectAll_def)
  have page_empty: "selectedAccounts s \<noteq> [] \<and>
      length (selectedAccounts s) \<noteq> length (accounts s) \<longrightarrow>
        selectedAccounts (selectAll (selectAll s)) = []"
    by (auto simp: selectAll_def)
  have modal: "handleSelectAllAccounts (handleSelectAllAccounts b) =
      b\<lparr>bulk_selectedAccounts :=
          bulk_selectedAccounts (handleSelectAllAccounts (handleSelectAllAccounts b))\<rparr>"
    by (simp add: handleSelectAllAccounts_def)
  have modal_back: "bulk_selectedAccounts b = [] \<or>
      set (bulk_selectedAccounts b) = set (map fb_id (bulk_accounts b)) \<and>
      length (bulk_selectedAccounts b) = length (bulk_accounts b) \<longrightarrow>
        set (bulk_selectedAccounts (handleSelectAllAccounts (handleSelectAllAccounts b))) =
        set (bulk_selectedAccounts b)"
    by (auto simp: handleSelectAllAccounts_def)
  have modal_empty: "bulk_selectedAccounts b \<noteq> [] \<and>
      length (bulk_selectedAccounts b) \<noteq> length (bulk_accounts b) \<longrightarrow>
        bulk_selectedAccounts (handleSelectAllAccounts (handleSelectAllAccounts b)) = []"
    by (auto simp: handleSelectAllAccounts_def)
  from page page_back page_empty modal modal_back modal_empty show ?thesis
    by blast
qed

theorem selectAll_twice_witness:
  "(let s = (initialState Map.empty)
              \<lparr>accounts := [\<lparr>acct_id = 1, acct_email = ''a@x.com''\<rparr>,
                            \<lparr>acct_id = 2, acct_email = ''b@x.com''\<rparr>],
               selectedAccounts := [2, 1]\<rparr>
    in set (selectedAccounts s) = set (map acct_id (accounts s)) \<and>
       length (selectedAccounts s) = length (accounts s) \<and>
       set (selectedAccounts (selectAll (selectAll s))) = {1, 2}) \<and>
   (let s = (initialState Map.empty)
              \<lparr>accounts := [\<lparr>acct_id = 1, acct_email = ''a@x.com''\<rparr>,
                            \<lparr>acct_id = 2, acct_email = ''b@x.com''\<rparr>],
               selectedAccounts := [2]\<rparr>
    in selectedAccounts s \<noteq> [] \<and> length (selectedAccounts s) \<noteq> length (accounts s) \<and>
       selectedAccounts (selectAll (selectAll s)) = []) \<and>
   (let b = \<lparr>bulk_accounts = [\<lparr>fb_id = 1, fb_email = ''a@x.com'', session_exists = True\<rparr>,
                               \<lparr>fb_id = 2, fb_email = ''b@x.com'', session_exists = False\<rparr>],
             bulk_selectedAccounts = [], txtFile = None, imageFiles = [], bulk_loading = False,
             uploadResult = None, token = None, toasts = [], onSuccess_calls = 0, timers = [],
             bulk_requests = []\<rparr>
    in bulk_selectedAccounts b = [] \<and>
       bulk_selectedAccounts (handleSelectAllAccounts (handleSelectAllAccounts b)) = []) \<and>
   (let b = \<lparr>bulk_accounts = [\<lparr>fb_id = 1, fb_email = ''a@x.com'', session_exists = True\<rparr>,
                               \<lparr>fb_id = 2, fb_email = ''b@x.com'', session_exists = False\<rparr>],
             bulk_selectedAccounts = [1], txtFile = None, imageFiles = [], bulk_loading = False,
             uploadResult = None, token = None, toasts = [], onSuccess_calls = 0, timers = [],
             bulk_requests = []\<rparr>
    in bulk_selectedAccounts b \<noteq> [] \<and>
       length (bulk_selectedAccounts b) \<noteq> length (bulk_accounts b) \<and>
       bulk_selectedAccounts (handleSelectAllAccounts (handleSelectAllAccounts b)) = [])"
  using selectAll_twice
          [where s = "(initialState Map.empty)
              \<lparr>accounts := [\<lparr>acct_id = 1, acct_email = ''a@x.com''\<rparr>,
                            \<lparr>acct_id = 2, acct_email = ''b@x.com''\<rparr>],
               selectedAccounts := [2, 1]\<rparr>"
             and b = "\<lparr>bulk_accounts = [\<lparr>fb_id = 1, fb_email = ''a@x.com'', session_exists = True\<rparr>,
                               \<lparr>fb_id = 2, fb_email = ''b@x.com'', session_exists = False\<rparr>],
             bulk_selectedAccounts = [], txtFile = None, imageFiles = [], bulk_loading = False,
             uploadResult = None, token = None, toasts = [], onSuccess_calls = 0, timers = [],
             bulk_requests = []\<rparr>"]
        selectAll_twice
          [where s = "(initialState Map.empty)
              \<lparr>accounts := [\<lparr>acct_id = 1, acct_email = ''a@x.com''\<rparr>,
                            \<lparr>acct_id = 2, acct_email = ''b@x.com''\<rparr>],
               selectedAccounts := [2]\<rparr>"
             and b = "\<lparr>bulk_accounts = [\<lparr>fb_id = 1, fb_email = ''a@x.com'', session_exists = True\<rparr>,
                               \<lparr>fb_id = 2, fb_email = ''b@x.com'', session_exists = False\<rparr>],
             bulk_selectedAccounts = [1], txtFile = None, imageFiles = [], bulk_loading = False,
             uploadResult = None, token = None, toasts = [], onSuccess_calls = 0, timers = [],
             bulk_requests = []\<rparr>"]
  by (simp add: initialState_def Let_def selectAll_def handleSelectAllAccounts_def insert_commute)

subsection \<open>Renewal page: the guards of handleRenewal\<close>

text \<open>
  C6. When no account is selected, or the renewal count is below 1 or above 20,
  \<open>handleRenewal\<close> only shows an alert: the state after it is the state before it with
  one more alert, so no request is sent and the results, the total, the job marker, the
  stored entries and the loading flag are as they were.
\<close>

theorem handleRenewal_blocked:
  assumes "selectedAccounts s = [] \<or> renewalCount s < 1 \<or> 20 < renewalCount s"
  shows "handleRenewal stamp rnd clock renewListings s =
           s\<lparr>alerts := alerts s @
               [if selectedAccounts s = [] then ''Please select at least one account''
                else ''Renewal count must be between 1 and 20 (Facebook limit)'']\<rparr> \<and>
         requests (handleRenewal stamp rnd clock renewListings s) = requests s \<and>
         results (handleRenewal stamp rnd clock renewListings s) = results s \<and>
         totalRenewed (handleRenewal stamp rnd clock renewListings s) = totalRenewed s \<and>
         activeRenewalJobId (handleRenewal stamp rnd clock renewListings s) = activeRenewalJobId s \<and>
         localStorage (handleRenewal stamp rnd clock renewListings s) = localStorage s \<and>
         loading (handleRenewal stamp rnd clock renewListings s) = loading s"
  using assms by (auto simp: handleRenewal_def)

theorem handleRenewal_blocked_witness:
  "(let s = (initialState Map.empty)\<lparr>selectedAccounts := [7], renewalCount := 21\<rparr>;
        s' = handleRenewal ''1700000000000'' ''k3j9x0a1b'' (\<lambda>i. 1700000000500)
               (\<lambda>request. Resolved \<lparr>response_results = [], total_renewed = None\<rparr>) s
    in 20 < renewalCount s \<and> requests s' = [] \<and>
       alerts s' = [''Renewal count must be between 1 and 20 (Facebook limit)''] \<and>
       loading s' = False \<and> activeRenewalJobId s' = None) \<and>
   (let s = (initialState Map.empty)\<lparr>selectedAccounts := [7], renewalCount := 0\<rparr>;
        s' = handleRenewal ''1700000000000'' ''k3j9x0a1b'' (\<lambda>i. 1700000000500)
               (\<lambda>request. Resolved \<lparr>response_results = [], total_renewed = None\<rparr>) s
    in renewalCount s < 1 \<and> requests s' = [] \<and>
       alerts s' = [''Renewal count must be between 1 and 20 (Facebook limit)'']) \<and>
   (let s = initialState Map.empty;
        s' = handleRenewal ''1700000000000'' ''k3j9x0a1b'' (\<lambda>i. 1700000000500)
               (\<lambda>request. Resolved \<lparr>response_results = [], total_renewed = None\<rparr>) s
    in selectedAccounts s = [] \<and> requests s' = [] \<and>
       alerts s' = [''Please select at least one account''])"
  using handleRenewal_blocked
          [where s = "(initialState Map.empty)\<lparr>selectedAccounts := [7], renewalCount := 21\<rparr>"
             and stamp = "''1700000000000''" and rnd = "''k3j9x0a1b''"
             and clock = "\<lambda>i. 1700000000500"
             and renewListings = "\<lambda>request. Resolved \<lparr>response_results = [], total_renewed = None\<rparr>"]
        handleRenewal_blocked
          [where s = "(initialState Map.empty)\<lparr>selectedAccounts := [7], renewalCount := 0\<rparr>"
             and stamp = "''1700000000000''" and rnd = "''k3j9x0a1b''"
             and clock = "\<lambda>i. 1700000000500"
             and renewListings = "\<lambda>request. Resolved \<lparr>response_results = [], total_renewed = None\<rparr>"]
        handleRenewal_blocked
          [where s = "initialState Map.empty"
             and stamp = "''1700000000000''" and rnd = "''k3j9x0a1b''"
             and clock = "\<lambda>i. 1700000000500"
             and renewListings = "\<lambda>request. Resolved \<lparr>response_results = [], total_renewed = None\<rparr>"]
  by (simp add: initialState_def Let_def)

subsection \<open>Bulk Upload modal: the two ends of an upload\<close>

text \<open>
  C9. With a text file chosen and at least one account selected, \<open>bulk_handleSubmit\<close>
  sends one request. When the reply is ok, the text file, the image files and the
  account selection are reset, \<^verbatim>\<open>onSuccess\<close> is called once and one timer is set
  that calls \<^verbatim>\<open>onClose\<close> after 2000 milliseconds. When the reply is not ok, or the
  request throws, the error message is put in the result panel and raised as an error
  toast, no timer is set, \<^verbatim>\<open>onSuccess\<close> is not called, and the text file, the image
  files and the account selection are as they were.
\<close>

theorem bulk_upload_outcomes:
  assumes "txtFile s = Some chosen" and "bulk_selectedAccounts s \<noteq> []"
  shows "(\<forall>data. fetch (uploadRequest chosen s) = Replied True data \<longrightarrow>
            txtFile (bulk_handleSubmit fetch s) = None \<and>
            imageFiles (bulk_handleSubmit fetch s) = [] \<and>
            bulk_selectedAccounts (bulk_handleSubmit fetch s) = [] \<and>
            onSuccess_calls (bulk_handleSubmit fetch s) = onSuccess_calls s + 1 \<and>
            timers (bulk_handleSubmit fetch s) = timers s @ [(2000, call_onClose)] \<and>
            toasts (bulk_handleSubmit fetch s) = toasts s @ [(success_toast, data_message data)] \<and>
            bulk_requests (bulk_handleSubmit fetch s) =
              bulk_requests s @ [uploadRequest chosen s] \<and>
            \<not> bulk_loading (bulk_handleSubmit fetch s)) \<and>
         (\<forall>m. (\<exists>data. fetch (uploadRequest chosen s) = Replied False data \<and>
                       m = or_string (data_error data) ''Upload failed'') \<or>
              (\<exists>thrown. fetch (uploadRequest chosen s) = Threw thrown \<and>
                       m = or_string (Some thrown) ''Failed to upload TXT file'') \<longrightarrow>
            uploadResult (bulk_handleSubmit fetch s) =
              Some \<lparr>upload_success = False, upload_message = m, stats = None, errors = None,
                    additional_errors = None\<rparr> \<and>
            toasts (bulk_handleSubmit fetch s) = toasts s @ [(error_toast, m)] \<and>
            txtFile (bulk_handleSubmit fetch s) = txtFile s \<and>
            imageFiles (bulk_handleSubmit fetch s) = imageFiles s \<and>
            bulk_selectedAccounts (bulk_handleSubmit fetch s) = bulk_selectedAccounts s \<and>
            onSuccess_calls (bulk_handleSubmit fetch s) = onSuccess_calls s \<and>
            timers (bulk_handleSubmit fetch s) = timers s \<and>
            bulk_requests (bulk_handleSubmit fetch s) =
              bulk_requests s @ [uploadRequest chosen s] \<and>
            \<not> bulk_loading (bulk_handleSubmit fetch s))"
proof (intro conjI allI impI)
  fix data
  assume "fetch (uploadRequest chosen s) = Replied True data"
  with assms have after: "bulk_handleSubmit fetch s =
      s\<lparr>uploadResult := Some \<lparr>upload_success = True, upload_message = data_message data,
                              stats = data_stats data, errors = data_errors data,
                              additional_errors = data_additional_errors data\<rparr>,
        bulk_requests := bulk_requests s @
          [uploadRequest chosen s],
        toasts := toasts s @ [(success_toast, data_message data)],
        txtFile := None, imageFiles := [], bulk_selectedAccounts := [],
        onSuccess_calls := onSuccess_calls s + 1,
        timers := timers s @ [(2000, call_onClose)],
        bulk_loading := False\<rparr>"
    by (simp add: bulk_handleSubmit_def onToast_def Let_def uploadRequest_def)
  show "txtFile (bulk_handleSubmit fetch s) = None" by (simp add: after)
  show "imageFiles (bulk_handleSubmit fetch s) = []" by (simp add: after)
  show "bulk_selectedAccounts (bulk_handleSubmit fetch s) = []" by (simp add: after)
  show "onSuccess_calls (bulk_handleSubmit fetch s) = onSuccess_calls s + 1" by (simp add: after)
  show "timers (bulk_handleSubmit fetch s) = timers s @ [(2000, call_onClose)]"
    by (simp add: after)
  show "toasts (bulk_handleSubmit fetch s) = toasts s @ [(success_toast, data_message data)]"
    by (simp add: after)
  show "bulk_requests (bulk_handleSubmit fetch s) = bulk_requests s @ [uploadRequest chosen s]"
    by (simp add: after)
  show "\<not> bulk_loading (bulk_handleSubmit fetch s)" by (simp add: after)
next
  fix m
  assume failed:
    "(\<exists>data. fetch (uploadRequest chosen s) = Replied False data \<and>
             m = or_string (data_error data) ''Upload failed'') \<or>
     (\<exists>thrown. fetch (uploadRequest chosen s) = Threw thrown \<and>
             m = or_string (Some thrown) ''Failed to upload TXT file'')"
  have nonempty: "or_string x d \<noteq> []" if "d \<noteq> []" for x d
    using that by (cases x) simp_all
  have same: "or_string (Some (or_string x ''Upload failed'')) ''Failed to upload TXT file'' =
      or_string x ''Upload failed''" for x
    by (cases x) simp_all
  from failed assms have after: "bulk_handleSubmit fetch s =
      s\<lparr>uploadResult := Some \<lparr>upload_success = False, upload_message = m, stats = None,
                              errors = None, additional_errors = None\<rparr>,
        bulk_requests := bulk_requests s @
          [uploadRequest chosen s],
        toasts := toasts s @ [(error_toast, m)],
        bulk_loading := False\<rparr>"
    by (auto simp: bulk_handleSubmit_def upload_catch_def onToast_def Let_def same uploadRequest_def
             simp del: or_string.simps)
  show "uploadResult (bulk_handleSubmit fetch s) =
      Some \<lparr>upload_success = False, upload_message = m, stats = None, errors = None,
            additional_errors = None\<rparr>" by (simp add: after)
  show "toasts (bulk_handleSubmit fetch s) = toasts s @ [(error_toast, m)]" by (simp add: after)
  show "txtFile (bulk_handleSubmit fetch s) = txtFile s" by (simp add: after)
  show "imageFiles (bulk_handleSubmit fetch s) = imageFiles s" by (simp add: after)
  show "bulk_selectedAccounts (bulk_handleSubmit fetch s) = bulk_selectedAccounts s"
    by (simp add: after)
  show "onSuccess_calls (bulk_handleSubmit fetch s) = onSuccess_calls s" by (simp add: after)
  show "timers (bulk_handleSubmit fetch s) = timers s" by (simp add: after)
  show "bulk_requests (bulk_handleSubmit fetch s) = bulk_requests s @ [uploadRequest chosen s]"
    by (simp add: after)
  show "\<not> bulk_loading (bulk_handleSubmit fetch s)" by (simp add: after)
qed

theorem bulk_upload_outcomes_witness:
  "(let s = \<lparr>bulk_accounts = [\<lparr>fb_id = 1, fb_email = ''a@x.com'', session_exists = True\<rparr>],
             bulk_selectedAccounts = [1],
             txtFile = Some \<lparr>file_name = ''posts.txt'', file_type = ''text/plain''\<rparr>,
             imageFiles = [\<lparr>file_name = ''a.png'', file_type = ''image/png''\<rparr>],
             bulk_loading = False, uploadResult = None, token = Some ''abc'', toasts = [],
             onSuccess_calls = 0, timers = [], bulk_requests = []\<rparr>;
        good = bulk_handleSubmit
                 (\<lambda>request. Replied True
                    \<lparr>data_message = ''Created 1 post'', data_error = None, data_stats = None,
                     data_errors = None, data_additional_errors = None\<rparr>) s;
        bad = bulk_handleSubmit
                (\<lambda>request. Replied False
                   \<lparr>data_message = [], data_error = Some ''Row 1: price missing'',
                    data_stats = None, data_errors = None, data_additional_errors = None\<rparr>) s
    in txtFile s = Some \<lparr>file_name = ''posts.txt'', file_type = ''text/plain''\<rparr> \<and>
       bulk_selectedAccounts s \<noteq> [] \<and>
       txtFile good = None \<and> imageFiles good = [] \<and> bulk_selectedAccounts good = [] \<and>
       onSuccess_calls good = 1 \<and> timers good = [(2000, call_onClose)] \<and>
       uploadResult bad =
         Some \<lparr>upload_success = False, upload_message = ''Row 1: price missing'',
               stats = None, errors = None, additional_errors = None\<rparr> \<and>
       toasts bad = [(error_toast, ''Row 1: price missing'')] \<and>
       txtFile bad = txtFile s \<and> imageFiles bad = imageFiles s \<and>
       bulk_selectedAccounts bad = [1] \<and> timers bad = [])"
  using bulk_upload_outcomes
          [where s = "\<lparr>bulk_accounts = [\<lparr>fb_id = 1, fb_email = ''a@x.com'', session_exists = True\<rparr>],
             bulk_selectedAccounts = [1],
             txtFile = Some \<lparr>file_name = ''posts.txt'', file_type = ''text/plain''\<rparr>,
             imageFiles = [\<lparr>file_name = ''a.png'', file_type = ''image/png''\<rparr>],
             bulk_loading = False, uploadResult = None, token = Some ''abc'', toasts = [],
             onSuccess_calls = 0, timers = [], bulk_requests = []\<rparr>"
             and chosen = "\<lparr>file_name = ''posts.txt'', file_type = ''text/plain''\<rparr>"
             and fetch = "\<lambda>request. Replied True
                    \<lparr>data_message = ''Created 1 post'', data_error = None, data_stats = None,
                     data_errors = None, data_additional_errors = None\<rparr>"]
        bulk_upload_outcomes
          [where s = "\<lparr>bulk_accounts = [\<lparr>fb_id = 1, fb_email = ''a@x.com'', session_exists = True\<rparr>],
             bulk_selectedAccounts = [1],
             txtFile = Some \<lparr>file_name = ''posts.txt'', file_type = ''text/plain''\<rparr>,
             imageFiles = [\<lparr>file_name = ''a.png'', file_type = ''image/png''\<rparr>],
             bulk_loading = False, uploadResult = None, token = Some ''abc'', toasts = [],
             onSuccess_calls = 0, timers = [], bulk_requests = []\<rparr>"
             and chosen = "\<lparr>file_name = ''posts.txt'', file_type = ''text/plain''\<rparr>"
             and fetch = "\<lambda>request. Replied False
                   \<lparr>data_message = [], data_error = Some ''Row 1: price missing'',
                    data_stats = None, data_errors = None, data_additional_errors = None\<rparr>"]
  by (simp add: Let_def)

subsection \<open>Renewal page: the stored activity log\<close>

lemma sumRenewed_sum_list:
  "sumRenewed rs = sum_list (map (\<lambda>r. case renewed_count r of None \<Rightarrow> 0 | Some n \<Rightarrow> n) rs)"
proof -
  have "foldl (\<lambda>sum result. sum + or_number (renewed_count result) 0) a rs =
        a + sum_list (map (\<lambda>r. case renewed_count r of None \<Rightarrow> 0 | Some n \<Rightarrow> n) rs)" for a
    by (induction rs arbitrary: a) (auto split: option.splits)
  then show ?thesis by (simp add: sumRenewed_def)
qed

lemma isRecent_with_timestamp:
  "isRecent now (with_timestamp (Some (new_Date ts)) log) =
     (case ts of ISOString t \<Rightarrow> now - 24 * 60 * 60 * 1000 < t | Unparseable u \<Rightarrow> False)"
  by (cases ts) (simp_all add: isRecent_def with_timestamp_def twentyFourHours_def)

lemma loadActivityLogs_keeps_last_day_aux:
  assumes "localStorage s ''renewalActivityLogs'' = Some (Stringified logs)"
  shows "results (loadActivityLogs now s) =
           map (\<lambda>log. with_timestamp (Some (new_Date (timestamp log))) log)
             (filter (\<lambda>log. case timestamp log of
                               ISOString t \<Rightarrow> now - 24 * 60 * 60 * 1000 < t
                             | Unparseable u \<Rightarrow> False) logs)"
  using assms
  by (simp add: loadActivityLogs_def Let_def filter_map comp_def isRecent_with_timestamp)

text \<open>
  C2. When the stored log is read on load at time \<open>now\<close>, the displayed log is the
  stored entries whose timestamp is later than \<open>now\<close> minus 24 hours, in their stored
  order, each with all its fields and its timestamp read back as a date. So no
  displayed entry is 24 hours old or older, every stored entry less than 24 hours old is
  displayed, and the displayed total is the sum of \<open>renewed_count\<close> over the displayed
  entries, a missing count being 0.
\<close>

theorem loadActivityLogs_keeps_last_day:
  assumes "localStorage s ''renewalActivityLogs'' = Some (Stringified logs)"
  shows "results (loadActivityLogs now s) =
           map (\<lambda>log. with_timestamp (Some (new_Date (timestamp log))) log)
             (filter (\<lambda>log. case timestamp log of
                               ISOString t \<Rightarrow> now - 24 * 60 * 60 * 1000 < t
                             | Unparseable u \<Rightarrow> False) logs) \<and>
         (\<forall>log \<in> set logs. \<forall>t. timestamp log = ISOString t \<and> t \<le> now - 24 * 60 * 60 * 1000 \<longrightarrow>
            with_timestamp (Some (Date t)) log \<notin> set (results (loadActivityLogs now s))) \<and>
         (\<forall>log \<in> set logs. \<forall>t. timestamp log = ISOString t \<and> now - 24 * 60 * 60 * 1000 < t \<longrightarrow>
            with_timestamp (Some (Date t)) log \<in> set (results (loadActivityLogs now s))) \<and>
         totalRenewed (loadActivityLogs now s) =
           sum_list (map (\<lambda>r. case renewed_count r of None \<Rightarrow> 0 | Some n \<Rightarrow> n)
                       (results (loadActivityLogs now s)))"
proof -
  let ?conv = "\<lambda>log. with_timestamp (Some (new_Date (timestamp log))) log"
  let ?keep = "\<lambda>log. case timestamp log of
                        ISOString t \<Rightarrow> now - 24 * 60 * 60 * 1000 < t
                      | Unparseable u \<Rightarrow> False"
  have shown: "results (loadActivityLogs now s) = map ?conv (filter ?keep logs)"
    using assms by (rule loadActivityLogs_keeps_last_day_aux)
  have total: "totalRenewed (loadActivityLogs now s) = sumRenewed (results (loadActivityLogs now s))"
    using assms by (simp add: loadActivityLogs_def Let_def)
  have old: "with_timestamp (Some (Date t)) log \<notin> set (results (loadActivityLogs now s))"
    if "log \<in> set logs" and "timestamp log = ISOString t" and "t \<le> now - 24 * 60 * 60 * 1000"
    for log t
  proof
    assume "with_timestamp (Some (Date t)) log \<in> set (results (loadActivityLogs now s))"
    then obtain l where l: "l \<in> set logs" "?keep l" "with_timestamp (Some (Date t)) log = ?conv l"
      by (auto simp: shown)
    from l(3) have "new_Date (timestamp l) = Date t"
      by (simp add: with_timestamp_def)
    then have "timestamp l = ISOString t"
      by (cases "timestamp l") simp_all
    with l(2) that(3) show False by simp
  qed
  have recent: "with_timestamp (Some (Date t)) log \<in> set (results (loadActivityLogs now s))"
    if "log \<in> set logs" and "timestamp log = ISOString t" and "now - 24 * 60 * 60 * 1000 < t"
    for log t
  proof -
    from that have "?keep log" and "?conv log = with_timestamp (Some (Date t)) log"
      by simp_all
    with that(1) show ?thesis
      unfolding shown by (metis (mono_tags, lifting) image_eqI list.set_map mem_Collect_eq set_filter)
  qed
  from shown old recent total show ?thesis
    by (simp add: sumRenewed_sum_list)
qed

theorem loadActivityLogs_keeps_last_day_witness:
  "(let logs = [\<lparr>account_id = 1, email = ''a@x.com'', renewed_count = Some 4,
                  available_count = 9, success = True, message = ''ok'',
                  condition_met = ''renewed'', timestamp = ISOString 1700096400000\<rparr>,
                 \<lparr>account_id = 2, email = ''b@x.com'', renewed_count = Some 6,
                  available_count = 6, success = True, message = ''ok'',
                  condition_met = ''renewed'', timestamp = ISOString 1700010000000\<rparr>,
                 \<lparr>account_id = 3, email = ''c@x.com'', renewed_count = None,
                  available_count = 0, success = False, message = ''failed'',
                  condition_met = ''none'', timestamp = ISOString 1700099999000\<rparr>];
        s = initialState [''renewalActivityLogs'' \<mapsto> Stringified logs];
        s' = loadActivityLogs 1700100000000 s
    in localStorage s ''renewalActivityLogs'' = Some (Stringified logs) \<and>
       results s' =
         [\<lparr>account_id = 1, email = ''a@x.com'', renewed_count = Some 4,
           available_count = 9, success = True, message = ''ok'',
           condition_met = ''renewed'', timestamp = Some (Date 1700096400000)\<rparr>,
          \<lparr>account_id = 3, email = ''c@x.com'', renewed_count = None,
           available_count = 0, success = False, message = ''failed'',
           condition_met = ''none'', timestamp = Some (Date 1700099999000)\<rparr>] \<and>
       totalRenewed s' = 4)"
  using loadActivityLogs_keeps_last_day
          [where now = 1700100000000
             and logs = "[\<lparr>account_id = 1, email = ''a@x.com'', renewed_count = Some 4,
                  available_count = 9, success = True, message = ''ok'',
                  condition_met = ''renewed'', timestamp = ISOString 1700096400000\<rparr>,
                 \<lparr>account_id = 2, email = ''b@x.com'', renewed_count = Some 6,
                  available_count = 6, success = True, message = ''ok'',
                  condition_met = ''renewed'', timestamp = ISOString 1700010000000\<rparr>,
                 \<lparr>account_id = 3, email = ''c@x.com'', renewed_count = None,
                  available_count = 0, success = False, message = ''failed'',
                  condition_met = ''none'', timestamp = ISOString 1700099999000\<rparr>]"
             and s = "initialState [''renewalActivityLogs'' \<mapsto> Stringified
                [\<lparr>account_id = 1, email = ''a@x.com'', renewed_count = Some 4,
                  available_count = 9, success = True, message = ''ok'',
                  condition_met = ''renewed'', timestamp = ISOString 1700096400000\<rparr>,
                 \<lparr>account_id = 2, email = ''b@x.com'', renewed_count = Some 6,
                  available_count = 6, success = True, message = ''ok'',
                  condition_met = ''renewed'', timestamp = ISOString 1700010000000\<rparr>,
                 \<lparr>account_id = 3, email = ''c@x.com'', renewed_count = None,
                  available_count = 0, success = False, message = ''failed'',
                  condition_met = ''none'', timestamp = ISOString 1700099999000\<rparr>]]"]
  by (simp add: initialState_def Let_def with_timestamp_def)

lemma erase_with_timestamp: "with_timestamp v (with_timestamp w log) = with_timestamp v log"
  by (simp add: with_timestamp_def)

lemma stamped_timestamps:
  "map timestamp (map (\<lambda>(i, log). with_timestamp (f i) log) (enumerate n xs)) =
     map f [n..<n + length xs]"
proof (induction xs arbitrary: n)
  case Nil
  show ?case by simp
next
  case (Cons x xs)
  have "[n..<n + length (x # xs)] = n # [Suc n..<Suc n + length xs]"
    by (simp add: upt_rec)
  with Cons [of "Suc n"] show ?case
    by (simp add: with_timestamp_def)
qed

lemma stamped_fields:
  "map (with_timestamp v) (map (\<lambda>(i, log). with_timestamp (f i) log) (enumerate n xs)) =
     map (with_timestamp v) xs"
  by (induction xs arbitrary: n) (simp_all add: erase_with_timestamp)

lemma step_keeps_logs_key:
  assumes "nonEmptyArrayIfPresent (localStorage s)"
  shows "nonEmptyArrayIfPresent (localStorage (step s e))"
proof (cases e)
  case (LoadActivityLogs now)
  with assms show ?thesis
    by (auto simp: loadActivityLogs_def nonEmptyArrayIfPresent_def Let_def
             split: option.splits jstext.splits)
next
  case (SaveActivityLogs clock)
  have "enumerate 0 (results s) \<noteq> []" if "results s \<noteq> []"
    using that by (cases "results s") simp_all
  with SaveActivityLogs assms show ?thesis
    by (auto simp: saveActivityLogs_def nonEmptyArrayIfPresent_def Let_def)
next
  case CheckRenewalStatus
  with assms show ?thesis
    by (auto simp: checkRenewalStatus_def nonEmptyArrayIfPresent_def split: option.splits)
next
  case (LoadAccounts data)
  with assms show ?thesis by (simp add: loadAccounts_def)
next
  case (ToggleAccount accountId)
  with assms show ?thesis by (simp add: toggleAccount_def)
next
  case SelectAll
  with assms show ?thesis by (simp add: selectAll_def)
next
  case (SetRenewalCount parsed)
  with assms show ?thesis by (simp add: setRenewalCount_def)
next
  case (HandleRenewal stamp rnd clock renewListings)
  with assms show ?thesis
    by (auto simp: handleRenewal_def resetRenewalState_def nonEmptyArrayIfPresent_def Let_def
             split: renewOutcome.splits)
next
  case ClearActivityLogs
  then show ?thesis
    by (simp add: clearActivityLogs_def resetRenewalState_def nonEmptyArrayIfPresent_def)
qed

text \<open>
  C5 (as stated, refuted). First: one entry is saved when the clock reads 1700000000000
  and the page is loaded again 25 hours later; the reloaded log is empty.
  Second: the log in memory is empty while the store still holds an entry from an
  earlier renewal; saving writes nothing, and the reload shows the old entry.
\<close>

theorem save_then_load_counterexample:
  "results
     (loadActivityLogs 1700090000000
        (initialState (localStorage
           (saveActivityLogs (\<lambda>i. 1700000000000)
              ((initialState Map.empty)
                 \<lparr>results := [\<lparr>account_id = 1, email = ''a@x.com'', renewed_count = Some 4,
                               available_count = 9, success = True, message = ''ok'',
                               condition_met = ''renewed'',
                               timestamp = Some (Date 1699999999000)\<rparr>]\<rparr>))))) = [] \<and>
   results
     (loadActivityLogs 1700000060000
        (initialState (localStorage
           (saveActivityLogs (\<lambda>i. 1700000000000)
              ((initialState
                  [''renewalActivityLogs'' \<mapsto> Stringified
                     [\<lparr>account_id = 1, email = ''a@x.com'', renewed_count = Some 4,
                       available_count = 9, success = True, message = ''ok'',
                       condition_met = ''renewed'', timestamp = ISOString 1699999000000\<rparr>]])
                 \<lparr>results := []\<rparr>))))) \<noteq> []"
  by (simp add: saveActivityLogs_def loadActivityLogs_def initialState_def Let_def
        now_toISOString_def with_timestamp_def isRecent_def twentyFourHours_def)

text \<open>
  C5 (amended). Let a non-empty result list be saved, the clock reading \<open>clock i\<close> when
  the entry at index \<open>i\<close> is stamped, and let the page be loaded again at a time \<open>now\<close>
  less than 24 hours after each of these readings. Then the store holds one entry per
  result, the reloaded log is the stored entries in order, each with its timestamp read
  back as the date that its stored ISO text denotes, which is the time of saving, and
  apart from the timestamps the reloaded entries are the saved ones.
\<close>

theorem save_then_load:
  assumes "results s \<noteq> []"
    and "\<forall>i < length (results s). now - 24 * 60 * 60 * 1000 < clock i"
  shows "\<exists>stored.
           localStorage (saveActivityLogs clock s) ''renewalActivityLogs'' =
             Some (Stringified stored) \<and>
           results (loadActivityLogs now (initialState (localStorage (saveActivityLogs clock s)))) =
             map (\<lambda>log. with_timestamp (Some (new_Date (timestamp log))) log) stored \<and>
           map timestamp stored = map (\<lambda>i. ISOString (clock i)) [0..<length (results s)] \<and>
           map (with_timestamp ())
             (results (loadActivityLogs now (initialState (localStorage (saveActivityLogs clock s))))) =
           map (with_timestamp ()) (results s)"
proof -
  let ?stored = "map (\<lambda>(i, log). with_timestamp (now_toISOString (clock i)) log)
                   (enumerate 0 (results s))"
  let ?s' = "saveActivityLogs clock s"
  have saved: "localStorage ?s' ''renewalActivityLogs'' = Some (Stringified ?stored)"
    using assms(1) by (simp add: saveActivityLogs_def Let_def)
  then have mounted:
    "localStorage (initialState (localStorage ?s')) ''renewalActivityLogs'' =
       Some (Stringified ?stored)"
    by (simp add: initialState_def)
  have all_recent: "filter (\<lambda>log. case timestamp log of
                               ISOString t \<Rightarrow> now - 24 * 60 * 60 * 1000 < t
                             | Unparseable u \<Rightarrow> False) ?stored = ?stored"
    using assms(2)
    by (auto simp: filter_id_conv in_set_enumerate_eq now_toISOString_def with_timestamp_def)
  have reloaded:
    "results (loadActivityLogs now (initialState (localStorage ?s'))) =
       map (\<lambda>log. with_timestamp (Some (new_Date (timestamp log))) log) ?stored"
    using loadActivityLogs_keeps_last_day_aux [OF mounted, of now] all_recent by simp
  have stamps: "map timestamp ?stored = map (\<lambda>i. ISOString (clock i)) [0..<length (results s)]"
    using stamped_timestamps [where f = "\<lambda>i. now_toISOString (clock i)" and n = 0 and xs = "results s"]
    by (simp add: now_toISOString_def)
  have same: "map (with_timestamp ())
       (map (\<lambda>log. with_timestamp (Some (new_Date (timestamp log))) log) ?stored) =
     map (with_timestamp ()) (results s)"
    using stamped_fields [where f = "\<lambda>i. now_toISOString (clock i)" and n = 0 and xs = "results s"
                          and v = "()"]
    by (simp add: comp_def erase_with_timestamp)
  show ?thesis
  proof (intro exI conjI)
    show "localStorage ?s' ''renewalActivityLogs'' = Some (Stringified ?stored)"
      by (rule saved)
    show "results (loadActivityLogs now (initialState (localStorage ?s'))) =
        map (\<lambda>log. with_timestamp (Some (new_Date (timestamp log))) log) ?stored"
      by (rule reloaded)
    show "map timestamp ?stored = map (\<lambda>i. ISOString (clock i)) [0..<length (results s)]"
      by (rule stamps)
    show "map (with_timestamp ())
        (results (loadActivityLogs now (initialState (localStorage ?s')))) =
        map (with_timestamp ()) (results s)"
      using same by (simp only: reloaded)
  qed
qed

theorem save_then_load_witness:
  "(let s = (initialState Map.empty)
              \<lparr>results := [\<lparr>account_id = 1, email = ''a@x.com'', renewed_count = Some 4,
                            available_count = 9, success = True, message = ''ok'',
                            condition_met = ''renewed'',
                            timestamp = Some (Date 1699999999000)\<rparr>,
                           \<lparr>account_id = 2, email = ''b@x.com'', renewed_count = None,
                            available_count = 0, success = False, message = ''failed'',
                            condition_met = ''none'',
                            timestamp = Some (Date 1699999999500)\<rparr>]\<rparr>;
        clock = (\<lambda>i. 1700000000000 + int i);
        s' = loadActivityLogs 1700000060000
               (initialState (localStorage (saveActivityLogs clock s)))
    in results s \<noteq> [] \<and>
       (\<forall>i < length (results s). 1700000060000 - 24 * 60 * 60 * 1000 < clock i) \<and>
       results s' =
         [\<lparr>account_id = 1, email = ''a@x.com'', renewed_count = Some 4,
           available_count = 9, success = True, message = ''ok'',
           condition_met = ''renewed'', timestamp = Some (Date 1700000000000)\<rparr>,
          \<lparr>account_id = 2, email = ''b@x.com'', renewed_count = None,
           available_count = 0, success = False, message = ''failed'',
           condition_met = ''none'', timestamp = Some (Date 1700000000001)\<rparr>])"
proof -
  let ?s = "(initialState Map.empty)
              \<lparr>results := [\<lparr>account_id = 1, email = ''a@x.com'', renewed_count = Some 4,
                            available_count = 9, success = True, message = ''ok'',
                            condition_met = ''renewed'',
                            timestamp = Some (Date 1699999999000)\<rparr>,
                           \<lparr>account_id = 2, email = ''b@x.com'', renewed_count = None,
                            available_count = 0, success = False, message = ''failed'',
                            condition_met = ''none'',
                            timestamp = Some (Date 1699999999500)\<rparr>]\<rparr>"
  let ?clock = "\<lambda>i. 1700000000000 + int i"
  have nonempty: "results ?s \<noteq> []"
    by (simp add: initialState_def)
  have recent: "\<forall>i < length (results ?s). 1700000060000 - 24 * 60 * 60 * 1000 < ?clock i"
    by (simp add: initialState_def)
  from save_then_load [OF nonempty recent] nonempty recent show ?thesis
    by (simp add: Let_def initialState_def saveActivityLogs_def now_toISOString_def
          with_timestamp_def)
qed

text \<open>
  C10. The save effect leaves the store as it is when the result list is empty, and
  writes the JSON text of a non-empty array otherwise. The clear action removes the key
  \<^verbatim>\<open>renewalActivityLogs\<close>, and so does the load effect when it finds a non-empty text
  under the key that it cannot read. Hence, for every run of the page that starts from
  a store where the key is absent or holds the JSON text of a non-empty array, the
  same is true of the store after the run: the page never leaves an empty list there.
\<close>

theorem logs_key_never_empty_array:
  "(results s = [] \<longrightarrow> localStorage (saveActivityLogs clock s) = localStorage s) \<and>
   (results s \<noteq> [] \<longrightarrow>
      (\<exists>logs. localStorage (saveActivityLogs clock s) ''renewalActivityLogs'' =
                Some (Stringified logs) \<and> length logs = length (results s))) \<and>
   localStorage (clearActivityLogs s) ''renewalActivityLogs'' = None \<and>
   (\<forall>t. localStorage s ''renewalActivityLogs'' = Some (Text t) \<and> t \<noteq> [] \<longrightarrow>
      localStorage (loadActivityLogs now s) ''renewalActivityLogs'' = None) \<and>
   (nonEmptyArrayIfPresent (localStorage s) \<longrightarrow>
      nonEmptyArrayIfPresent (localStorage (run events s)))"
proof (intro conjI allI impI)
  show "localStorage (saveActivityLogs clock s) = localStorage s" if "results s = []"
    using that by (simp add: saveActivityLogs_def)
  show "\<exists>logs. localStorage (saveActivityLogs clock s) ''renewalActivityLogs'' =
            Some (Stringified logs) \<and> length logs = length (results s)"
    if "results s \<noteq> []"
    using that by (simp add: saveActivityLogs_def Let_def)
  show "localStorage (clearActivityLogs s) ''renewalActivityLogs'' = None"
    by (simp add: clearActivityLogs_def resetRenewalState_def)
  show "localStorage (loadActivityLogs now s) ''renewalActivityLogs'' = None"
    if "localStorage s ''renewalActivityLogs'' = Some (Text t) \<and> t \<noteq> []" for t
    using that by (simp add: loadActivityLogs_def)
  show "nonEmptyArrayIfPresent (localStorage (run events s))"
    if "nonEmptyArrayIfPresent (localStorage s)"
    unfolding run_def using that
  proof (induction events arbitrary: s)
    case Nil
    then show ?case by simp
  next
    case (Cons e events)
    from Cons.prems have "nonEmptyArrayIfPresent (localStorage (step s e))"
      by (rule step_keeps_logs_key)
    then show ?case
      using Cons.IH by simp
  qed
qed

theorem logs_key_never_empty_array_witness:
  "(let s = initialState Map.empty
    in results s = [] \<and> localStorage (saveActivityLogs (\<lambda>i. 1700000000000) s) = Map.empty) \<and>
   (let s = (initialState Map.empty)
              \<lparr>results := [\<lparr>account_id = 1, email = ''a@x.com'', renewed_count = Some 4,
                            available_count = 9, success = True, message = ''ok'',
                            condition_met = ''renewed'',
                            timestamp = Some (Date 1699999999000)\<rparr>]\<rparr>
    in results s \<noteq> [] \<and>
       localStorage (saveActivityLogs (\<lambda>i. 1700000000000) s) ''renewalActivityLogs'' =
         Some (Stringified
           [\<lparr>account_id = 1, email = ''a@x.com'', renewed_count = Some 4,
             available_count = 9, success = True, message = ''ok'',
             condition_met = ''renewed'', timestamp = ISOString 1700000000000\<rparr>])) \<and>
   (let s = initialState [''renewalActivityLogs'' \<mapsto> Text ''{bad'']
    in localStorage s ''renewalActivityLogs'' = Some (Text ''{bad'') \<and> ''{bad'' \<noteq> [] \<and>
       localStorage (loadActivityLogs 1700000000000 s) ''renewalActivityLogs'' = None) \<and>
   (let s = initialState Map.empty;
        events = [LoadActivityLogs 1700000000000, SaveActivityLogs (\<lambda>i. 1700000000000),
                  LoadAccounts [\<lparr>acct_id = 7, acct_email = ''a@x.com''\<rparr>], ToggleAccount 7,
                  HandleRenewal ''1700000000100'' ''k3j9x0a1b'' (\<lambda>i. 1700000000500)
                    (\<lambda>request. Resolved
                       \<lparr>response_results =
                          [\<lparr>account_id = 7, email = ''a@x.com'', renewed_count = Some 4,
                            available_count = 9, success = True, message = ''ok'',
                            condition_met = ''renewed'', timestamp = None\<rparr>],
                        total_renewed = Some 4\<rparr>),
                  SaveActivityLogs (\<lambda>i. 1700000000600)]
    in nonEmptyArrayIfPresent (localStorage s) \<and>
       nonEmptyArrayIfPresent (localStorage (run events s)) \<and>
       localStorage (run events s) ''renewalActivityLogs'' =
         Some (Stringified
           [\<lparr>account_id = 7, email = ''a@x.com'', renewed_count = Some 4,
             available_count = 9, success = True, message = ''ok'',
             condition_met = ''renewed'', timestamp = ISOString 1700000000600\<rparr>]) \<and>
       localStorage (run (events @ [ClearActivityLogs]) s) ''renewalActivityLogs'' = None)"
  using logs_key_never_empty_array
          [where s = "initialState Map.empty" and clock = "\<lambda>i. 1700000000000"
             and events = "[LoadActivityLogs 1700000000000, SaveActivityLogs (\<lambda>i. 1700000000000),
                  LoadAccounts [\<lparr>acct_id = 7, acct_email = ''a@x.com''\<rparr>], ToggleAccount 7,
                  HandleRenewal ''1700000000100'' ''k3j9x0a1b'' (\<lambda>i. 1700000000500)
                    (\<lambda>request. Resolved
                       \<lparr>response_results =
                          [\<lparr>account_id = 7, email = ''a@x.com'', renewed_count = Some 4,
                            available_count = 9, success = True, message = ''ok'',
                            condition_met = ''renewed'', timestamp = None\<rparr>],
                        total_renewed = Some 4\<rparr>),
                  SaveActivityLogs (\<lambda>i. 1700000000600)]"]
        logs_key_never_empty_array
          [where s = "(initialState Map.empty)
              \<lparr>results := [\<lparr>account_id = 1, email = ''a@x.com'', renewed_count = Some 4,
                            available_count = 9, success = True, message = ''ok'',
                            condition_met = ''renewed'',
                            timestamp = Some (Date 1699999999000)\<rparr>]\<rparr>"
             and clock = "\<lambda>i. 1700000000000" and events = "[]"]
        logs_key_never_empty_array
          [where s = "initialState [''renewalActivityLogs'' \<mapsto> Text ''{bad'']"
             and now = 1700000000000 and events = "[]"]
  by (simp add: Let_def initialState_def run_def saveActivityLogs_def loadActivityLogs_def
        loadAccounts_def toggleAccount_def handleRenewal_def resetRenewalState_def
        clearActivityLogs_def calculatedTotal_def now_toISOString_def with_timestamp_def
        nonEmptyArrayIfPresent_def)

subsection \<open>Import Session modal: session data that is not JSON\<close>

lemma trim_empty_iff: "trim s = [] \<longleftrightarrow> (\<forall>c \<in> set s. isWhiteSpace c)"
proof
  assume "trim s = []"
  then have "dropWhile isWhiteSpace (rev (dropWhile isWhiteSpace s)) = []"
    by (simp add: trim_def)
  then have all: "\<forall>c \<in> set (dropWhile isWhiteSpace s). isWhiteSpace c"
    by (simp add: dropWhile_eq_Nil_conv)
  have "dropWhile isWhiteSpace s = []"
  proof (cases "dropWhile isWhiteSpace s")
    case Nil
    then show ?thesis .
  next
    case (Cons a as)
    then have "\<not> isWhiteSpace a"
      by (metis hd_dropWhile list.distinct(1) list.sel(1))
    with all Cons show ?thesis by simp
  qed
  then show "\<forall>c \<in> set s. isWhiteSpace c"
    by (simp add: dropWhile_eq_Nil_conv)
next
  assume "\<forall>c \<in> set s. isWhiteSpace c"
  then have blank: "dropWhile isWhiteSpace s = []"
    by (simp add: dropWhile_eq_Nil_conv)
  show "trim s = []"
    unfolding trim_def blank by simp
qed

lemma tokenize_blank:
  "\<forall>c \<in> set s. isWhiteSpace c \<Longrightarrow> tokenize s = None \<or> tokenize s = Some []"
proof (induction s)
  case Nil
  show ?case by simp
next
  case (Cons c cs)
  then have c: "isWhiteSpace c" and rest: "tokenize cs = None \<or> tokenize cs = Some []"
    by simp_all
  show ?case
  proof (cases "is_json_ws c")
    case True
    with rest show ?thesis by simp
  next
    case False
    with c have "c = CHR 0x0B \<or> c = CHR 0x0C \<or> c = CHR 0xA0"
      by (auto simp: isWhiteSpace_def is_json_ws_def)
    then have other: "\<not> is_digit c" "c \<noteq> CHR ''{''" "c \<noteq> CHR ''}''" "c \<noteq> CHR ''[''"
      "c \<noteq> CHR '']''" "c \<noteq> CHR '':''" "c \<noteq> CHR '',''" "c \<noteq> CHR 0x22" "c \<noteq> CHR ''-''"
      "c \<noteq> CHR ''t''" "c \<noteq> CHR ''f''" "c \<noteq> CHR ''n''"
      by (auto simp: is_digit_def)
    have "take 4 (c # cs) \<noteq> ''true''" "take 5 (c # cs) \<noteq> ''false''" "take 4 (c # cs) \<noteq> ''null''"
      using other by auto
    with False other have "tokenize (c # cs) = None"
      by (simp del: take_Cons_numeral)
    then show ?thesis by simp
  qed
qed

lemma blank_is_not_json: "trim s = [] \<Longrightarrow> JSON_parse s = None"
  using tokenize_blank [of s] by (auto simp: trim_empty_iff JSON_parse_def)

text \<open>
  C8 (as stated, refuted). The text \<^verbatim>\<open>{bad json\<close> is not JSON. After it is pasted
  into the textarea of a modal whose filename field holds \<^verbatim>\<open>test@gmail.com\<close>, the
  inline error is set, but the submit button is not disabled.
\<close>

theorem invalid_json_submit_counterexample:
  \<open>JSON_parse ''{bad json'' = None \<and>
   error (sessionData_onChange ''{bad json''
            (import_initialState\<lparr>filename := ''test@gmail.com'', inputMethod := paste\<rparr>)) =
     ''Invalid JSON format. Please check your pasted data.'' \<and>
   \<not> submitDisabled (sessionData_onChange ''{bad json''
            (import_initialState\<lparr>filename := ''test@gmail.com'', inputMethod := paste\<rparr>))\<close>
  by code_simp

text \<open>
  C8 (amended). Pasting a text that is not blank and does not parse as JSON sets the
  inline error "Invalid JSON format. Please check your pasted data."; pasting a text that
  parses as JSON clears the error. In both cases the submit button is disabled exactly
  when the modal is loading or the filename is blank, so it is enabled for an unparseable
  text once a filename is present. Whenever the session data does not parse as JSON,
  \<open>import_handleSubmit\<close> sends no import request and leaves an error message. A chosen
  \<^verbatim>\<open>.json\<close> file whose text does not parse empties the session data, which disables
  the submit button.
\<close>

theorem import_session_json_validation:
  "(JSON_parse v = None \<and> trim v \<noteq> [] \<longrightarrow>
      error (sessionData_onChange v s) = ''Invalid JSON format. Please check your pasted data.'' \<and>
      (submitDisabled (sessionData_onChange v s) \<longleftrightarrow>
         import_loading s \<or> trim (filename s) = [])) \<and>
   (JSON_parse v \<noteq> None \<longrightarrow>
      error (sessionData_onChange v s) = [] \<and>
      (submitDisabled (sessionData_onChange v s) \<longleftrightarrow>
         import_loading s \<or> trim (filename s) = [])) \<and>
   (JSON_parse (sessionData s) = None \<longrightarrow>
      import_requests (import_handleSubmit importSession s) = import_requests s \<and>
      import_timers (import_handleSubmit importSession s) = import_timers s \<and>
      error (import_handleSubmit importSession s) \<noteq> []) \<and>
   (JSON_parse content = None \<and> endsWith name ''.json'' \<longrightarrow>
      sessionData (handleFileUpload (Some (name, content)) s) = [] \<and>
      error (handleFileUpload (Some (name, content)) s) = ''Invalid JSON file format'' \<and>
      submitDisabled (handleFileUpload (Some (name, content)) s))"
proof (intro conjI impI)
  assume bad: "JSON_parse v = None \<and> trim v \<noteq> []"
  then show "error (sessionData_onChange v s) =
      ''Invalid JSON format. Please check your pasted data.''"
    by (simp add: sessionData_onChange_def Let_def)
  from bad show "submitDisabled (sessionData_onChange v s) \<longleftrightarrow>
      import_loading s \<or> trim (filename s) = []"
    by (simp add: sessionData_onChange_def submitDisabled_def Let_def)
next
  assume good: "JSON_parse v \<noteq> None"
  then have filled: "trim v \<noteq> []"
    using blank_is_not_json [of v] by auto
  from good show "error (sessionData_onChange v s) = []"
    by (auto simp: sessionData_onChange_def Let_def)
  from good filled show "submitDisabled (sessionData_onChange v s) \<longleftrightarrow>
      import_loading s \<or> trim (filename s) = []"
    by (auto simp: sessionData_onChange_def submitDisabled_def Let_def)
next
  assume bad: "JSON_parse (sessionData s) = None"
  then show "import_requests (import_handleSubmit importSession s) = import_requests s"
    by (simp add: import_handleSubmit_def Let_def)
  from bad show "import_timers (import_handleSubmit importSession s) = import_timers s"
    by (simp add: import_handleSubmit_def Let_def)
  from bad show "error (import_handleSubmit importSession s) \<noteq> []"
    by (simp add: import_handleSubmit_def Let_def)
next
  assume bad: "JSON_parse content = None \<and> endsWith name ''.json''"
  then show "sessionData (handleFileUpload (Some (name, content)) s) = []"
    by (simp add: handleFileUpload_def Let_def)
  from bad show "error (handleFileUpload (Some (name, content)) s) = ''Invalid JSON file format''"
    by (simp add: handleFileUpload_def Let_def)
  from bad show "submitDisabled (handleFileUpload (Some (name, content)) s)"
    by (simp add: handleFileUpload_def submitDisabled_def trim_def Let_def)
qed

theorem import_session_json_validation_witness:
  \<open>JSON_parse ''{bad json'' = None \<and> trim ''{bad json'' \<noteq> [] \<and>
   JSON_parse ''[{"name":"c_user","value":"x"}]'' \<noteq> None \<and>
   endsWith ''cookies.json'' ''.json'' \<and>
   (let s = import_initialState\<lparr>filename := ''test@gmail.com'', inputMethod := paste\<rparr>;
        bad = sessionData_onChange ''{bad json'' s;
        good = sessionData_onChange ''[{"name":"c_user","value":"x"}]'' bad;
        sent = import_handleSubmit (\<lambda>request. ImportFailed None (Some 500)) bad;
        chosen = handleFileUpload (Some (''cookies.json'', ''{bad json'')) s
    in error bad = ''Invalid JSON format. Please check your pasted data.'' \<and>
       \<not> submitDisabled bad \<and>
       error good = [] \<and> \<not> submitDisabled good \<and>
       JSON_parse (sessionData bad) = None \<and>
       import_requests sent = [] \<and> import_timers sent = [] \<and> error sent \<noteq> [] \<and>
       sessionData chosen = [] \<and> submitDisabled chosen)\<close>
proof -
  have bad: \<open>JSON_parse ''{bad json'' = None\<close>
    by code_simp
  have filled: \<open>trim ''{bad json'' \<noteq> []\<close>
    by code_simp
  have good: \<open>JSON_parse ''[{"name":"c_user","value":"x"}]'' \<noteq> None\<close>
    by code_simp
  have json_file: \<open>endsWith ''cookies.json'' ''.json''\<close>
    by code_simp
  have name: \<open>trim ''test@gmail.com'' \<noteq> []\<close>
    by code_simp
  let ?s = \<open>import_initialState\<lparr>filename := ''test@gmail.com'', inputMethod := paste\<rparr>\<close>
  let ?bad = \<open>sessionData_onChange ''{bad json'' ?s\<close>
  have pasted: \<open>sessionData ?bad = ''{bad json''\<close>
    by (simp add: sessionData_onChange_def Let_def split: option.splits)
  have still: \<open>filename ?bad = ''test@gmail.com''\<close> \<open>\<not> import_loading ?bad\<close>
    \<open>import_requests ?bad = []\<close> \<open>import_timers ?bad = []\<close>
    by (simp_all add: sessionData_onChange_def Let_def import_initialState_def
          split: option.splits)
  have start: \<open>filename ?s = ''test@gmail.com''\<close> \<open>\<not> import_loading ?s\<close>
    by (simp_all add: import_initialState_def)
  from import_session_json_validation
         [where v = \<open>''{bad json''\<close> and s = ?s and content = \<open>''{bad json''\<close>
            and name = \<open>''cookies.json''\<close>]
       import_session_json_validation
         [where v = \<open>''[{"name":"c_user","value":"x"}]''\<close> and s = ?bad
            and importSession = \<open>\<lambda>request. ImportFailed None (Some 500)\<close>]
       bad filled good json_file name pasted still start
  show ?thesis
    by (simp add: Let_def)
qed

subsection \<open>Renewal page: the total of a renewal response\<close>

text \<open>
  C3 (the code at the failing input). The response carries \<^verbatim>\<open>total_renewed: 0\<close> and
  one account with \<^verbatim>\<open>renewed_count: 5\<close>. The field is present, so the claim, like
  the comment above the computation, gives 0; the page shows 5, the sum over the
  accounts, because \<^verbatim>\<open>||\<close> takes a present 0 for a missing value. The second half is
  the scenario of the specification, which the code meets: counts 5, 0 and 3 with no
  \<^verbatim>\<open>total_renewed\<close> give 8.
\<close>

theorem total_renewed_zero_shows_sum:
  "totalRenewed
     (handleRenewal ''1700000000000'' ''k3j9x0a1b'' (\<lambda>i. 1700000000500)
        (\<lambda>request. Resolved
           \<lparr>response_results =
              [\<lparr>account_id = 7, email = ''a@x.com'', renewed_count = Some 5,
                available_count = 9, success = True, message = ''ok'',
                condition_met = ''renewed'', timestamp = None\<rparr>],
            total_renewed = Some 0\<rparr>)
        ((initialState Map.empty)\<lparr>selectedAccounts := [7]\<rparr>)) = 5 \<and>
   totalRenewed
     (handleRenewal ''1700000000000'' ''k3j9x0a1b'' (\<lambda>i. 1700000000500)
        (\<lambda>request. Resolved
           \<lparr>response_results =
              [\<lparr>account_id = 1, email = ''a@x.com'', renewed_count = Some 5,
                available_count = 9, success = True, message = ''ok'',
                condition_met = ''renewed'', timestamp = None\<rparr>,
               \<lparr>account_id = 2, email = ''b@x.com'', renewed_count = Some 0,
                available_count = 0, success = True, message = ''ok'',
                condition_met = ''none'', timestamp = None\<rparr>,
               \<lparr>account_id = 3, email = ''c@x.com'', renewed_count = Some 3,
                available_count = 4, success = True, message = ''ok'',
                condition_met = ''renewed'', timestamp = None\<rparr>],
            total_renewed = None\<rparr>)
        ((initialState Map.empty)\<lparr>selectedAccounts := [1, 2, 3]\<rparr>)) = 8"
  by (simp add: handleRenewal_def initialState_def resetRenewalState_def calculatedTotal_def
        sumRenewed_def Let_def)

subsection \<open>Image proxy\<close>

text \<open>
  C7 (the code at the failing inputs). The upstream replies 304, and then 999. Neither
  reply is ok, so the handler builds a text response with the upstream status; the
  constructor throws for both statuses, the \<^verbatim>\<open>catch\<close> block takes over, and the
  answer is 500 "Failed to load image" where the claim gives the upstream status. An
  upstream 404 is relayed as the claim says.
\<close>

theorem GET_upstream_304_answers_500:
  "GET (\<lambda>u h. Fetched \<lparr>upstream_status = 304, content_type = None, arrayBuffer = Some []\<rparr>)
     (Some ''http://host/a.png'') =
     Some \<lparr>body = TextBody ''Failed to load image'', status = 500,
           headers = [(''content-type'', ''text/plain;charset=UTF-8'')]\<rparr> \<and>
   GET (\<lambda>u h. Fetched \<lparr>upstream_status = 999, content_type = Some ''text/html'',
                         arrayBuffer = Some [60, 104]\<rparr>)
     (Some ''http://host/a.png'') =
     Some \<lparr>body = TextBody ''Failed to load image'', status = 500,
           headers = [(''content-type'', ''text/plain;charset=UTF-8'')]\<rparr> \<and>
   GET (\<lambda>u h. Fetched \<lparr>upstream_status = 404, content_type = Some ''text/html'',
                         arrayBuffer = Some [60, 104]\<rparr>)
     (Some ''http://host/a.png'') =
     Some \<lparr>body = TextBody ''Failed to fetch image'', status = 404,
           headers = [(''content-type'', ''text/plain;charset=UTF-8'')]\<rparr>"
  by (simp add: GET_def GET_try_def new_NextResponse_def ok_def)

end
